theory Spec2Isabelle
  imports Main
begin

section \<open>Data model (the shared type definitions)\<close>

text \<open>
  The records follow the interfaces \<^verbatim>\<open>Scan\<close>, \<^verbatim>\<open>ValidationHistory\<close> and \<^verbatim>\<open>User\<close>
  of the shared type definitions. Field names carry a prefix (\<open>s_\<close>, \<open>v_\<close>, ...) because
  several interfaces share names such as \<^verbatim>\<open>id\<close> and \<^verbatim>\<open>status\<close>. A JavaScript
  \<^verbatim>\<open>number\<close> holding a row identity is an \<open>int\<close>; an optional or nullable field is
  an \<open>option\<close>. The display-only fields of a Scan (\<^verbatim>\<open>confidence\<close>, \<^verbatim>\<open>solution\<close>,
  \<^verbatim>\<open>recommended_products\<close>) and the joined \<^verbatim>\<open>scan\<close> of a ValidationHistory row are
  never read by the code modelled here and are left out.
\<close>

datatype scan_status = PendingValidation | Validated | Corrected

datatype history_status = HValidated | HCorrected

datatype scan_type = leaf_disease | fruit_maturity

record profile =
  p_id :: string
  p_username :: string
  p_full_name :: string
  p_email :: string
  p_profile_picture :: "string option"

record scan =
  s_id :: int
  s_farmer_id :: string
  s_scan_type :: scan_type
  s_ai_prediction :: string
  s_image_url :: string
  s_status :: scan_status
  s_created_at :: string
  s_updated_at :: string
  s_scan_uuid :: string
  s_expert_comment :: "string option"
  s_expert_validation :: "string option"
  s_farmer_profile :: "profile option"

record validation =
  v_id :: int
  v_scan_id :: int
  v_expert_id :: string
  v_ai_prediction :: string
  v_expert_validation :: "string option"
  v_status :: history_status
  v_validated_at :: string
  v_expert_comment :: "string option"
  v_expert_profile :: "profile option"

record user =
  u_id :: string
  u_email :: "string option"

text \<open>The error object of the database client (\<^verbatim>\<open>SupabaseError\<close>).\<close>

record supabase_error =
  se_message :: "string option"
  se_details :: "string option"
  se_hint :: "string option"
  se_code :: "string option"
  se_instanceof_Error :: bool

text \<open>A response of the query transport: \<^verbatim>\<open>{ data, error }\<close>.\<close>

record 'a response =
  r_data :: "'a option"
  r_error :: "supabase_error option"

section \<open>The synchronized cache (DataProvider)\<close>

text \<open>
  The React state and refs of \<^verbatim>\<open>DataProvider\<close>: three pieces of replicated data, the
  two flags shown to the presentation, and the two refs \<^verbatim>\<open>initialFetched\<close> and
  \<^verbatim>\<open>isFetchingRef\<close>.
\<close>

record data_state =
  scans :: "scan list"
  validationHistory :: "validation list"
  totalUsers :: int
  loading :: bool
  error :: "string option"
  initialFetched :: bool
  isFetchingRef :: bool

definition initial_data_state :: data_state where
  "initial_data_state =
     \<lparr>scans = [], validationHistory = [], totalUsers = 0, loading = True, error = None,
      initialFetched = False, isFetchingRef = False\<rparr>"

text \<open>\<^verbatim>\<open>Array.prototype.findIndex\<close>: the first index whose element satisfies the
  predicate; \<open>None\<close> stands for the result \<^verbatim>\<open>-1\<close>.\<close>

fun findIndex :: "('a \<Rightarrow> bool) \<Rightarrow> 'a list \<Rightarrow> nat option" where
  "findIndex P [] = None"
| "findIndex P (x # xs) =
     (if P x then Some 0 else (case findIndex P xs of None \<Rightarrow> None | Some i \<Rightarrow> Some (Suc i)))"

text \<open>\<^verbatim>\<open>Array.prototype.some\<close>.\<close>

definition some :: "('a \<Rightarrow> bool) \<Rightarrow> 'a list \<Rightarrow> bool" where
  "some P xs = list_ex P xs"

text \<open>JavaScript truthiness of a number that may be missing (\<^verbatim>\<open>!payload.id\<close>) and of
  a string that may be missing.\<close>

definition truthy_num :: "int option \<Rightarrow> bool" where
  "truthy_num x = (case x of None \<Rightarrow> False | Some n \<Rightarrow> n \<noteq> 0)"

definition truthy_str :: "string option \<Rightarrow> bool" where
  "truthy_str x = (case x of None \<Rightarrow> False | Some s \<Rightarrow> s \<noteq> [])"

subsection \<open>The state updaters passed to \<^verbatim>\<open>setScans\<close> and \<^verbatim>\<open>setValidationHistory\<close>\<close>

text \<open>INSERT on \<^verbatim>\<open>scans\<close>: an identity already present leaves the list as it is.\<close>

definition insert_scan :: "scan \<Rightarrow> scan list \<Rightarrow> scan list" where
  "insert_scan fullScan prev =
     (if some (\<lambda>s. s_id s = s_id fullScan) prev then prev else fullScan # prev)"

text \<open>UPDATE on \<^verbatim>\<open>scans\<close>: overwrite at the first index found, else prepend.\<close>

definition update_scan :: "scan \<Rightarrow> scan list \<Rightarrow> scan list" where
  "update_scan fullScan prev =
     (case findIndex (\<lambda>s. s_id s = s_id fullScan) prev of
        None \<Rightarrow> fullScan # prev
      | Some index \<Rightarrow> prev[index := fullScan])"

definition delete_scan :: "int \<Rightarrow> scan list \<Rightarrow> scan list" where
  "delete_scan deleted_id prev = filter (\<lambda>s. s_id s \<noteq> deleted_id) prev"

definition insert_validation :: "validation \<Rightarrow> validation list \<Rightarrow> validation list" where
  "insert_validation fullValidation prev =
     (if some (\<lambda>v. v_id v = v_id fullValidation) prev then prev else fullValidation # prev)"

definition update_validation :: "validation \<Rightarrow> validation list \<Rightarrow> validation list" where
  "update_validation fullValidation prev =
     (case findIndex (\<lambda>v. v_id v = v_id fullValidation) prev of
        None \<Rightarrow> fullValidation # prev
      | Some index \<Rightarrow> prev[index := fullValidation])"

definition delete_validation :: "int \<Rightarrow> validation list \<Rightarrow> validation list" where
  "delete_validation deleted_id prev = filter (\<lambda>v. v_id v \<noteq> deleted_id) prev"

text \<open>The status written onto the parent Scan:
  \<^verbatim>\<open>fullValidation.status === "Validated" ? "Validated" : "Corrected"\<close>.\<close>

definition scan_status_of :: "history_status \<Rightarrow> scan_status" where
  "scan_status_of st = (if st = HValidated then Validated else Corrected)"

text \<open>\<^verbatim>\<open>fullValidation.expert_validation || null\<close>.\<close>

definition or_null :: "string option \<Rightarrow> string option" where
  "or_null x = (if truthy_str x then x else None)"

text \<open>The updater that reflects a ValidationHistory row onto its Scan (used by both the
  INSERT and the UPDATE handler of \<^verbatim>\<open>validation_history\<close>).\<close>

definition reflect_validation :: "validation \<Rightarrow> scan list \<Rightarrow> scan list" where
  "reflect_validation fullValidation prev =
     (case findIndex (\<lambda>s. s_id s = v_scan_id fullValidation) prev of
        Some index \<Rightarrow>
          prev[index := (prev ! index)
                 \<lparr>s_status := scan_status_of (v_status fullValidation),
                  s_expert_validation := or_null (v_expert_validation fullValidation)\<rparr>]
      | None \<Rightarrow> prev)"

subsection \<open>Change notifications\<close>

text \<open>
  The subscription registers eight handlers: INSERT, UPDATE and DELETE on \<^verbatim>\<open>scans\<close>
  and on \<^verbatim>\<open>validation_history\<close>, INSERT and DELETE on \<^verbatim>\<open>profiles\<close>. A notification
  carries the identity of the row (\<^verbatim>\<open>payload.new.id\<close>, or \<^verbatim>\<open>payload.old.id\<close> for a
  delete), which may be missing.

  A handler that awaits a point-fetch is split at the \<^verbatim>\<open>await\<close>: \<open>on_event\<close> is the
  part that runs when the notification arrives and returns the point-fetch it issues, if
  any; \<open>on_fetched\<close> is the continuation that runs with the result of that fetch
  (\<open>None\<close> when the helper returned \<^verbatim>\<open>null\<close>).
\<close>

datatype table = T_scans | T_validation_history | T_profiles

datatype event_kind = INSERT | UPDATE | DELETE

record change_event =
  ev_kind :: event_kind
  ev_table :: table
  ev_id :: "int option"

datatype point_fetch = FetchScan int | FetchValidation int

datatype fetched = FetchedScan "scan option" | FetchedValidation "validation option"

definition on_event :: "data_state \<Rightarrow> change_event \<Rightarrow> point_fetch option \<times> data_state" where
  "on_event d ev =
     (case (ev_table ev, ev_kind ev) of
        (T_scans, DELETE) \<Rightarrow>
          (if \<not> initialFetched d then (None, d)
           else if truthy_num (ev_id ev)
                then (None, d\<lparr>scans := delete_scan (the (ev_id ev)) (scans d)\<rparr>)
                else (None, d))
      | (T_scans, _) \<Rightarrow>
          (if \<not> initialFetched d then (None, d)
           else if \<not> truthy_num (ev_id ev) then (None, d)
           else (Some (FetchScan (the (ev_id ev))), d))
      | (T_validation_history, DELETE) \<Rightarrow>
          (if \<not> initialFetched d then (None, d)
           else if truthy_num (ev_id ev)
                then (None, d\<lparr>validationHistory :=
                                 delete_validation (the (ev_id ev)) (validationHistory d)\<rparr>)
                else (None, d))
      | (T_validation_history, _) \<Rightarrow>
          (if \<not> initialFetched d then (None, d)
           else if \<not> truthy_num (ev_id ev) then (None, d)
           else (Some (FetchValidation (the (ev_id ev))), d))
      | (T_profiles, INSERT) \<Rightarrow>
          (if \<not> initialFetched d then (None, d)
           else (None, d\<lparr>totalUsers := totalUsers d + 1\<rparr>))
      | (T_profiles, DELETE) \<Rightarrow>
          (if \<not> initialFetched d then (None, d)
           else (None, d\<lparr>totalUsers := max 0 (totalUsers d - 1)\<rparr>))
      | (T_profiles, UPDATE) \<Rightarrow> (None, d))"

definition on_fetched :: "data_state \<Rightarrow> change_event \<Rightarrow> fetched \<Rightarrow> data_state" where
  "on_fetched d ev res =
     (case (ev_table ev, ev_kind ev, res) of
        (T_scans, INSERT, FetchedScan (Some fullScan)) \<Rightarrow>
          d\<lparr>scans := insert_scan fullScan (scans d)\<rparr>
      | (T_scans, UPDATE, FetchedScan (Some fullScan)) \<Rightarrow>
          d\<lparr>scans := update_scan fullScan (scans d)\<rparr>
      | (T_validation_history, INSERT, FetchedValidation (Some fullValidation)) \<Rightarrow>
          d\<lparr>validationHistory := insert_validation fullValidation (validationHistory d),
            scans := (if v_scan_id fullValidation \<noteq> 0
                      then reflect_validation fullValidation (scans d) else scans d)\<rparr>
      | (T_validation_history, UPDATE, FetchedValidation (Some fullValidation)) \<Rightarrow>
          d\<lparr>validationHistory := update_validation fullValidation (validationHistory d),
            scans := (if v_scan_id fullValidation \<noteq> 0
                      then reflect_validation fullValidation (scans d) else scans d)\<rparr>
      | _ \<Rightarrow> d)"

text \<open>The effect that runs when the user becomes absent (logout).\<close>

definition logout_effect :: "data_state \<Rightarrow> data_state" where
  "logout_effect d =
     d\<lparr>scans := [], validationHistory := [], totalUsers := 0, initialFetched := False,
       loading := False, error := None\<rparr>"

definition removeScanFromState :: "int \<Rightarrow> data_state \<Rightarrow> data_state" where
  "removeScanFromState scanId d = d\<lparr>scans := filter (\<lambda>s. s_id s \<noteq> scanId) (scans d)\<rparr>"

subsection \<open>Full reload (\<^verbatim>\<open>fetchData\<close>)\<close>

text \<open>
  What the transport answers to one reload: the three parallel queries, and the answer it
  would give to the secondary batched profile query \<^verbatim>\<open>.in("id", ids)\<close>. The profile
  count of \<^verbatim>\<open>{ head: true, count: "exact" }\<close> is a row count, hence a \<open>nat\<close>.
\<close>

record fetch_responses =
  scansResponse :: "scan list response"
  validationsResponse :: "validation list response"
  profilesResponse_error :: "supabase_error option"
  profilesResponse_count :: "nat option"
  fallbackResponse :: "string list \<Rightarrow> profile list response"

text \<open>\<^verbatim>\<open>isReady = Boolean(user?.id)\<close>.\<close>

definition isReady :: "user option \<Rightarrow> bool" where
  "isReady u = (case u of None \<Rightarrow> False | Some x \<Rightarrow> u_id x \<noteq> [])"

text \<open>
  \<open>fetchData_begin\<close> is the part of \<^verbatim>\<open>fetchData\<close> before the \<^verbatim>\<open>await\<close>; \<open>None\<close> is
  the early \<^verbatim>\<open>return\<close> of the entry guard. \<open>fetchData_complete\<close> is the rest of the
  \<^verbatim>\<open>try\<close> block together with \<^verbatim>\<open>catch\<close> and \<^verbatim>\<open>finally\<close>, run when the
  responses arrive. \<^verbatim>\<open>isReady\<close> is the value captured by the callback.
\<close>

definition fetchData_begin :: "bool \<Rightarrow> bool \<Rightarrow> data_state \<Rightarrow> data_state option" where
  "fetchData_begin ready showSpinner d =
     (if \<not> ready \<or> isFetchingRef d then None
      else Some (d\<lparr>isFetchingRef := True,
                   loading := (if showSpinner \<or> \<not> initialFetched d then True else loading d),
                   error := None\<rparr>))"

definition has_full_name :: "validation \<Rightarrow> bool" where
  "has_full_name v = (case v_expert_profile v of None \<Rightarrow> False | Some p \<Rightarrow> p_full_name p \<noteq> [])"

text \<open>\<^verbatim>\<open>Set.prototype.add\<close> on a set kept in insertion order.\<close>

definition set_add :: "'a \<Rightarrow> 'a list \<Rightarrow> 'a list" where
  "set_add x xs = (if List.member xs x then xs else xs @ [x])"

definition missingExpertIds :: "validation list \<Rightarrow> string list" where
  "missingExpertIds validations =
     foldl (\<lambda>acc v. if \<not> has_full_name v \<and> v_expert_id v \<noteq> [] then set_add (v_expert_id v) acc
                     else acc) [] validations"

text \<open>\<^verbatim>\<open>new Map(fallbackProfiles.map(p => [p.id, p]))\<close>: a later entry with the same key
  replaces an earlier one.\<close>

definition profileMap :: "profile list \<Rightarrow> string \<Rightarrow> profile option" where
  "profileMap fallbackProfiles = map_of (rev (map (\<lambda>p. (p_id p, p)) fallbackProfiles))"

definition patch_expert :: "(string \<Rightarrow> profile option) \<Rightarrow> validation \<Rightarrow> validation" where
  "patch_expert pm v =
     (if has_full_name v \<or> v_expert_id v = [] then v
      else (case pm (v_expert_id v) of
              None \<Rightarrow> v
            | Some p \<Rightarrow>
                v\<lparr>v_expert_profile :=
                    Some \<lparr>p_id = p_id p, p_username = p_username p, p_full_name = p_full_name p,
                          p_email = p_email p, p_profile_picture = None\<rparr>\<rparr>))"

text \<open>\<^verbatim>\<open>err instanceof Error ? err.message : "Unknown error"\<close>.\<close>

definition thrown_message :: "supabase_error \<Rightarrow> string" where
  "thrown_message e =
     (if se_instanceof_Error e then (case se_message e of None \<Rightarrow> [] | Some m \<Rightarrow> m)
      else ''Unknown error'')"

definition fetchData_failed :: "supabase_error \<Rightarrow> data_state \<Rightarrow> data_state" where
  "fetchData_failed e d =
     d\<lparr>error := Some (''Failed to load data: '' @ thrown_message e),
       isFetchingRef := False, loading := False\<rparr>"

definition fetchData_complete :: "fetch_responses \<Rightarrow> data_state \<Rightarrow> data_state" where
  "fetchData_complete resp d =
     (case r_error (scansResponse resp) of
        Some e \<Rightarrow> fetchData_failed e d
      | None \<Rightarrow>
     (case r_error (validationsResponse resp) of
        Some e \<Rightarrow> fetchData_failed e d
      | None \<Rightarrow>
     (case profilesResponse_error resp of
        Some e \<Rightarrow> fetchData_failed e d
      | None \<Rightarrow>
        (let validations0 = (case r_data (validationsResponse resp) of None \<Rightarrow> [] | Some vs \<Rightarrow> vs);
             missing = missingExpertIds validations0;
             validations =
               (if missing \<noteq> []
                then (let fb = fallbackResponse resp missing in
                      case r_error fb of
                        Some _ \<Rightarrow> validations0
                      | None \<Rightarrow>
                          (case r_data fb of
                             None \<Rightarrow> validations0
                           | Some fallbackProfiles \<Rightarrow>
                               map (patch_expert (profileMap fallbackProfiles)) validations0))
                else validations0)
         in d\<lparr>scans := (case r_data (scansResponse resp) of None \<Rightarrow> [] | Some ss \<Rightarrow> ss),
              validationHistory := validations,
              totalUsers := (case profilesResponse_count resp of None \<Rightarrow> 0 | Some c \<Rightarrow> int c),
              initialFetched := True,
              isFetchingRef := False,
              loading := False\<rparr>))))"

text \<open>
  The labels that the same block writes with \<^verbatim>\<open>console.error\<close>: the label of the
  \<^verbatim>\<open>catch\<close> when one of the three responses carries an error, the label of the failed
  secondary profile query otherwise.
\<close>

definition fetchData_console :: "fetch_responses \<Rightarrow> string list" where
  "fetchData_console resp =
     (case r_error (scansResponse resp) of
        Some e \<Rightarrow> [''Error fetching dashboard data:'']
      | None \<Rightarrow>
     (case r_error (validationsResponse resp) of
        Some e \<Rightarrow> [''Error fetching dashboard data:'']
      | None \<Rightarrow>
     (case profilesResponse_error resp of
        Some e \<Rightarrow> [''Error fetching dashboard data:'']
      | None \<Rightarrow>
        (let validations0 = (case r_data (validationsResponse resp) of None \<Rightarrow> [] | Some vs \<Rightarrow> vs);
             missing = missingExpertIds validations0
         in if missing \<noteq> []
            then (case r_error (fallbackResponse resp missing) of
                    Some fallbackProfilesError \<Rightarrow> [''Error fetching expert profiles:'']
                  | None \<Rightarrow> [])
            else []))))"

section \<open>The mutation coordinator (\<^verbatim>\<open>handleValidation\<close> of the validation page)\<close>

subsection \<open>Strings\<close>

text \<open>
  \<^verbatim>\<open>Number.prototype.toString\<close> on an integer identity: its decimal digits, with a
  leading minus sign for a negative number. This is what JavaScript prints for every
  integer of magnitude below \<open>2 ^ 53\<close>, the integers a \<^verbatim>\<open>number\<close> holds exactly. From
  \<open>2 ^ 53\<close> on JavaScript prints the shortest digits that identify the double (and an
  exponent from \<open>10 ^ 21\<close> on), which this function does not follow: the draft keys and
  the toast texts of the model are those of the code for identities in the exact range.
\<close>

definition digit_char :: "nat \<Rightarrow> char" where
  "digit_char n = ''0123456789'' ! n"

function nat_digits :: "nat \<Rightarrow> string" where
  "nat_digits n = (if n < 10 then [digit_char n] else nat_digits (n div 10) @ [digit_char (n mod 10)])"
  by pat_completeness auto
termination
  by (relation "measure (\<lambda>n. n)") auto

definition toString :: "int \<Rightarrow> string" where
  "toString i = (if i < 0 then CHR ''-'' # nat_digits (nat (- i)) else nat_digits (nat i))"

text \<open>
  \<^verbatim>\<open>String.prototype.trim\<close> removes white space and line terminators from both ends.
  A \<open>char\<close> is one byte, so of the characters that \<^verbatim>\<open>trim\<close> removes the model has
  those up to U+00FF: tab, line feed, vertical tab, form feed, carriage return, space and
  the no-break space.
\<close>

definition is_space :: "char \<Rightarrow> bool" where
  "is_space c = List.member [CHR 0x09, CHR 0x0A, CHR 0x0B, CHR 0x0C, CHR 0x0D, CHR 0x20, CHR 0xA0] c"

definition trim :: "string \<Rightarrow> string" where
  "trim s = rev (dropWhile is_space (rev (dropWhile is_space s)))"

subsection \<open>Page state, transport and world\<close>

datatype action = confirm | correct

text \<open>
  The React state of \<^verbatim>\<open>ValidatePage\<close> that \<^verbatim>\<open>handleValidation\<close> reads or writes.
  \<^verbatim>\<open>notes\<close> and \<^verbatim>\<open>decision\<close> are objects keyed by \<^verbatim>\<open>scanId.toString()\<close>;
  \<^verbatim>\<open>processingScanId\<close> is one \<^verbatim>\<open>number | null\<close>.
\<close>

record page_state =
  "notes" :: "string \<Rightarrow> string option"
  decision :: "string \<Rightarrow> string option"
  detailId :: "string option"
  processingScanId :: "int option"

datatype toast = ToastSuccess string | ToastError string

text \<open>The payloads of the three write calls.\<close>

record scan_patch =
  sp_status :: scan_status
  sp_updated_at :: string

record history_payload =
  hp_scan_id :: int
  hp_expert_id :: string
  hp_ai_prediction :: string
  hp_expert_validation :: string
  hp_status :: history_status
  hp_validated_at :: string
  hp_expert_comment :: "string option"

text \<open>
  The transport calls the coordinator issues, in the order issued:
  \<^verbatim>\<open>from("scans").update(payload).eq("id", scanId)\<close>,
  \<^verbatim>\<open>from("validation_history").insert(payload)\<close>,
  \<^verbatim>\<open>from("validation_history").update(payload).eq("scan_id", scanId).eq("expert_id", id)\<close>,
  and the queries of one full reload.
\<close>

datatype call =
    UpdateScan int scan_patch
  | InsertHistory history_payload
  | UpdateHistory int string history_payload
  | FetchAll

text \<open>
  The database client is an external collaborator. It is a parameter of the model: a
  remote state of any type \<open>'r\<close> and, for each call, a function that answers it and
  moves the remote state. A write answers with its \<^verbatim>\<open>error\<close> (\<open>None\<close> for
  \<^verbatim>\<open>null\<close>).
\<close>

record 'r transport =
  t_update_scan :: "int \<Rightarrow> scan_patch \<Rightarrow> 'r \<Rightarrow> supabase_error option \<times> 'r"
  t_insert_history :: "history_payload \<Rightarrow> 'r \<Rightarrow> supabase_error option \<times> 'r"
  t_update_history :: "int \<Rightarrow> string \<Rightarrow> history_payload \<Rightarrow> 'r \<Rightarrow> supabase_error option \<times> 'r"
  t_fetch_all :: "'r \<Rightarrow> fetch_responses \<times> 'r"

text \<open>
  Everything a run of \<^verbatim>\<open>handleValidation\<close> can read or change: the signed-in user, the
  cache, the page state, the remote state, and three logs (transport calls issued, toasts
  shown, labels written with \<^verbatim>\<open>console.error\<close>).
\<close>

record 'r world =
  w_user :: "user option"
  w_data :: data_state
  w_page :: page_state
  w_remote :: 'r
  w_calls :: "call list"
  w_toasts :: "toast list"
  w_console :: "string list"

definition toast_error :: "string \<Rightarrow> 'r world \<Rightarrow> 'r world" where
  "toast_error m w = w\<lparr>w_toasts := w_toasts w @ [ToastError m]\<rparr>"

definition toast_success :: "string \<Rightarrow> 'r world \<Rightarrow> 'r world" where
  "toast_success m w = w\<lparr>w_toasts := w_toasts w @ [ToastSuccess m]\<rparr>"

definition console_error :: "string \<Rightarrow> 'r world \<Rightarrow> 'r world" where
  "console_error label w = w\<lparr>w_console := w_console w @ [label]\<rparr>"

text \<open>
  \<^verbatim>\<open>refreshData()\<close>, that is a call of a \<^verbatim>\<open>fetchData\<close> closure without a spinner,
  awaited to its end. \<open>ready\<close> is the \<^verbatim>\<open>isReady\<close> that the closure captured when it was
  created (\<^verbatim>\<open>useCallback(..., [isReady])\<close>), not the identity at the time of the call.
  What \<^verbatim>\<open>fetchData\<close> writes with \<^verbatim>\<open>console.error\<close> goes to the console log.
\<close>

definition refreshData :: "'r transport \<Rightarrow> bool \<Rightarrow> 'r world \<Rightarrow> 'r world" where
  "refreshData tr ready w =
     (case fetchData_begin ready False (w_data w) of
        None \<Rightarrow> w
      | Some d1 \<Rightarrow>
          (let (resp, r') = t_fetch_all tr (w_remote w)
           in w\<lparr>w_data := fetchData_complete resp d1, w_remote := r',
                w_calls := w_calls w @ [FetchAll],
                w_console := w_console w @ fetchData_console resp\<rparr>))"

text \<open>\<^verbatim>\<open>applyScanUpdate\<close>: the update of one Scan; the result is the error it throws.\<close>

definition applyScanUpdate :: "'r transport \<Rightarrow> int \<Rightarrow> scan_patch \<Rightarrow> 'r world \<Rightarrow> supabase_error option \<times> 'r world" where
  "applyScanUpdate tr scanId payload w =
     (let (e, r') = t_update_scan tr scanId payload (w_remote w)
      in (e, w\<lparr>w_remote := r', w_calls := w_calls w @ [UpdateScan scanId payload]\<rparr>))"

subsection \<open>\<^verbatim>\<open>handleValidation\<close>\<close>

text \<open>
  The values a run holds once it has passed its guards: the constants computed before
  the first \<^verbatim>\<open>await\<close>, the captured \<^verbatim>\<open>detailId\<close>, and the \<^verbatim>\<open>isReady\<close> of the
  captured \<^verbatim>\<open>refreshData\<close>. The callback and the \<^verbatim>\<open>fetchData\<close> it holds come from one
  render, so that \<^verbatim>\<open>isReady\<close> is \<^verbatim>\<open>Boolean(user?.id)\<close> of the \<^verbatim>\<open>user\<close> the guards
  test.
\<close>

record submit =
  sb_scanId :: int
  sb_action :: action
  sb_scanKey :: string
  sb_user_id :: string
  sb_ai_prediction :: string
  sb_note :: "string option"
  sb_expertValidation :: string
  sb_status :: history_status
  sb_timestamp :: string
  sb_originalStatus :: scan_status
  sb_detailId :: "string option"
  sb_isReady :: bool

definition insertPayload :: "submit \<Rightarrow> history_payload" where
  "insertPayload sb =
     \<lparr>hp_scan_id = sb_scanId sb, hp_expert_id = sb_user_id sb,
      hp_ai_prediction = sb_ai_prediction sb, hp_expert_validation = sb_expertValidation sb,
      hp_status = sb_status sb, hp_validated_at = sb_timestamp sb,
      hp_expert_comment = sb_note sb\<rparr>"

text \<open>
  \<open>handleValidation_begin\<close> is the synchronous part up to \<^verbatim>\<open>setProcessingScanId(scanId)\<close>:
  the guards, in the source's order, and the computation of the constants. \<open>None\<close> is an
  early \<^verbatim>\<open>return\<close>. \<open>now\<close> is the value of \<^verbatim>\<open>new Date().toISOString()\<close>.
\<close>

definition handleValidation_begin :: "string \<Rightarrow> int \<Rightarrow> action \<Rightarrow> 'r world \<Rightarrow> submit option \<times> 'r world" where
  "handleValidation_begin now scanId act w =
     (if processingScanId (w_page w) = Some scanId then (None, w)
      else (case find (\<lambda>s. s_id s = scanId) (scans (w_data w)) of
        None \<Rightarrow> (None, toast_error ''Scan not found'' w)
      | Some selectedScan \<Rightarrow>
         (if \<not> isReady (w_user w)
          then (None, toast_error ''You must be signed in to validate scans.'' w)
          else
           (let scanKey = toString scanId;
                noteInput = notes (w_page w) scanKey;
                note = (case noteInput of
                          None \<Rightarrow> None
                        | Some n \<Rightarrow> if n \<noteq> [] \<and> length (trim n) > 0 then Some (trim n) else None);
                correctedInput = decision (w_page w) scanKey;
                corrected = (case correctedInput of
                               None \<Rightarrow> []
                             | Some c \<Rightarrow> if c \<noteq> [] \<and> length (trim c) > 0 then trim c else [])
            in if act = correct \<and> corrected = []
               then (None, toast_error ''Please select or enter the corrected result.'' w)
               else
                (let expertValidation =
                       (if act = confirm then s_ai_prediction selectedScan
                        else if corrected \<noteq> [] then corrected else s_ai_prediction selectedScan)
                 in if expertValidation = []
                    then (None, toast_error ''Unable to determine validation result.'' w)
                    else
                      (Some \<lparr>sb_scanId = scanId, sb_action = act, sb_scanKey = scanKey,
                             sb_user_id = u_id (the (w_user w)),
                             sb_ai_prediction = s_ai_prediction selectedScan,
                             sb_note = note,
                             sb_expertValidation = expertValidation,
                             sb_status = (if act = confirm then HValidated else HCorrected),
                             sb_timestamp = now,
                             sb_originalStatus = s_status selectedScan,
                             sb_detailId = detailId (w_page w),
                             sb_isReady = isReady (w_user w)\<rparr>,
                       w\<lparr>w_page := (w_page w)\<lparr>processingScanId := Some scanId\<rparr>\<rparr>))))))"

text \<open>The \<^verbatim>\<open>finally\<close> block.\<close>

definition handleValidation_finally :: "submit \<Rightarrow> 'r world \<Rightarrow> 'r world" where
  "handleValidation_finally sb w =
     w\<lparr>w_page := (w_page w)\<lparr>processingScanId :=
          (if processingScanId (w_page w) = Some (sb_scanId sb) then None
           else processingScanId (w_page w))\<rparr>\<rparr>"

text \<open>
  The \<^verbatim>\<open>catch\<close> block: \<open>scanUpdated\<close> is the flag of the source, \<open>rollback_now\<close> the
  timestamp of the rollback payload.
\<close>

definition handleValidation_catch :: "'r transport \<Rightarrow> string \<Rightarrow> submit \<Rightarrow> bool \<Rightarrow> 'r world \<Rightarrow> 'r world" where
  "handleValidation_catch tr rollback_now sb scanUpdated w =
     (let w1 =
            (if scanUpdated
             then (let rollbackPayload =
                         \<lparr>sp_status = sb_originalStatus sb, sp_updated_at = rollback_now\<rparr>;
                       (e, w') = applyScanUpdate tr (sb_scanId sb) rollbackPayload w
                   in case e of
                        None \<Rightarrow> w'
                      | Some rollbackError \<Rightarrow> console_error ''Failed to rollback scan update:'' w')
             else w);
          w2 = console_error
                 (if sb_action sb = confirm then ''Error confirming validation:''
                  else ''Error correcting validation:'') w1;
          w3 = toast_error
                 (if sb_action sb = confirm then ''Failed to confirm validation''
                  else ''Failed to correct validation'') w2
      in handleValidation_finally sb w3)"

text \<open>The rest of the \<^verbatim>\<open>try\<close> block once the audit record is written.\<close>

definition handleValidation_success :: "'r transport \<Rightarrow> submit \<Rightarrow> 'r world \<Rightarrow> 'r world" where
  "handleValidation_success tr sb w =
     (let successMessage =
            (if sb_status sb = HValidated
             then ''Validation for scan '' @ toString (sb_scanId sb) @ '' confirmed''
             else ''Validation for scan '' @ toString (sb_scanId sb) @ '' corrected'');
          w1 = toast_success successMessage w;
          w2 = w1\<lparr>w_data := removeScanFromState (sb_scanId sb) (w_data w1)\<rparr>;
          w3 = w2\<lparr>w_page := (w_page w2)
                 \<lparr>decision := (decision (w_page w2))(sb_scanKey sb := None),
                  notes := (notes (w_page w2))(sb_scanKey sb := None),
                  detailId := (if sb_detailId sb = Some (sb_scanKey sb) then None
                               else detailId (w_page w2))\<rparr>\<rparr>;
          w4 = refreshData tr (sb_isReady sb) w3
      in handleValidation_finally sb w4)"

text \<open>
  \<open>handleValidation_complete\<close> is the \<^verbatim>\<open>try\<close> block from the first \<^verbatim>\<open>await\<close> on,
  with its \<^verbatim>\<open>catch\<close> and \<^verbatim>\<open>finally\<close>.
\<close>

definition handleValidation_complete :: "'r transport \<Rightarrow> string \<Rightarrow> submit \<Rightarrow> 'r world \<Rightarrow> 'r world" where
  "handleValidation_complete tr rollback_now sb w =
     (let updatePayload = \<lparr>sp_status = scan_status_of (sb_status sb), sp_updated_at = sb_timestamp sb\<rparr>;
          (e1, w1) = applyScanUpdate tr (sb_scanId sb) updatePayload w
      in case e1 of
           Some err \<Rightarrow> handleValidation_catch tr rollback_now sb False w1
         | None \<Rightarrow>
            (let (historyError, r2) = t_insert_history tr (insertPayload sb) (w_remote w1);
                 w2 = w1\<lparr>w_remote := r2, w_calls := w_calls w1 @ [InsertHistory (insertPayload sb)]\<rparr>
             in case historyError of
                  None \<Rightarrow> handleValidation_success tr sb w2
                | Some herr \<Rightarrow>
                   (if se_code herr = Some ''23505''
                    then
                      (let (updateHistoryError, r3) =
                             t_update_history tr (sb_scanId sb) (sb_user_id sb) (insertPayload sb)
                               (w_remote w2);
                           w3 = w2\<lparr>w_remote := r3,
                                   w_calls := w_calls w2 @
                                     [UpdateHistory (sb_scanId sb) (sb_user_id sb) (insertPayload sb)]\<rparr>
                       in case updateHistoryError of
                            None \<Rightarrow> handleValidation_success tr sb w3
                          | Some uerr \<Rightarrow>
                              handleValidation_catch tr rollback_now sb True
                                (console_error ''Error updating validation history:'' w3))
                    else handleValidation_catch tr rollback_now sb True
                           (console_error ''Error creating validation history:'' w2))))"

definition handleValidation :: "'r transport \<Rightarrow> string \<Rightarrow> string \<Rightarrow> int \<Rightarrow> action \<Rightarrow> 'r world \<Rightarrow> 'r world" where
  "handleValidation tr now rollback_now scanId act w =
     (case handleValidation_begin now scanId act w of
        (None, w') \<Rightarrow> w'
      | (Some sb, w') \<Rightarrow> handleValidation_complete tr rollback_now sb w')"

text \<open>The pending subset shown by the page:
  \<^verbatim>\<open>scans.filter(scan => scan.status === 'Pending Validation')\<close>.\<close>

definition pendingScans :: "scan list \<Rightarrow> scan list" where
  "pendingScans ss = filter (\<lambda>s. s_status s = PendingValidation) ss"

section \<open>A reference remote store\<close>

text \<open>
  Modelled from the spec: the hosted relational store behind the transport, which is not
  part of the repository. It follows the collaborator contracts of the specification:
  \<^verbatim>\<open>update(collection, id, patch)\<close> answers ok or an error,
  \<^verbatim>\<open>insert(collection, record)\<close> answers the record, a conflict error or an error, and
  the store enforces at most one ValidationRecord per (Scan, expert) pair. A call that
  fails changes nothing. \<open>db_faults\<close> is a schedule of transport failures: each call
  takes the next flag, and a call whose flag is \<open>True\<close> fails with an error that is not a
  conflict. The order of fetched rows is not modelled.
\<close>

record remote_db =
  db_scans :: "scan list"
  db_history :: "validation list"
  db_profiles :: "profile list"
  db_faults :: "bool list"

definition transport_failure :: supabase_error where
  "transport_failure =
     \<lparr>se_message = Some ''Failed to fetch'', se_details = None, se_hint = None,
      se_code = None, se_instanceof_Error = False\<rparr>"

definition conflict_error :: supabase_error where
  "conflict_error =
     \<lparr>se_message = Some ''duplicate key value violates unique constraint'',
      se_details = None, se_hint = None, se_code = Some ''23505'',
      se_instanceof_Error = False\<rparr>"

definition db_next_fault :: "remote_db \<Rightarrow> bool \<times> remote_db" where
  "db_next_fault db =
     (case db_faults db of [] \<Rightarrow> (False, db) | f # fs \<Rightarrow> (f, db\<lparr>db_faults := fs\<rparr>))"

definition apply_scan_patch :: "scan_patch \<Rightarrow> scan \<Rightarrow> scan" where
  "apply_scan_patch patch s = s\<lparr>s_status := sp_status patch, s_updated_at := sp_updated_at patch\<rparr>"

definition db_update_scan :: "int \<Rightarrow> scan_patch \<Rightarrow> remote_db \<Rightarrow> supabase_error option \<times> remote_db" where
  "db_update_scan scanId patch db =
     (let (f, db') = db_next_fault db
      in if f then (Some transport_failure, db')
         else (None, db'\<lparr>db_scans :=
                 map (\<lambda>s. if s_id s = scanId then apply_scan_patch patch s else s) (db_scans db')\<rparr>))"

definition same_pair :: "int \<Rightarrow> string \<Rightarrow> validation \<Rightarrow> bool" where
  "same_pair scanId expertId v = (v_scan_id v = scanId \<and> v_expert_id v = expertId)"

definition fresh_id :: "validation list \<Rightarrow> int" where
  "fresh_id vs = foldl max 0 (map v_id vs) + 1"

definition row_of_payload :: "int \<Rightarrow> history_payload \<Rightarrow> validation" where
  "row_of_payload new_id payload =
     \<lparr>v_id = new_id, v_scan_id = hp_scan_id payload, v_expert_id = hp_expert_id payload,
      v_ai_prediction = hp_ai_prediction payload,
      v_expert_validation = Some (hp_expert_validation payload),
      v_status = hp_status payload, v_validated_at = hp_validated_at payload,
      v_expert_comment = hp_expert_comment payload, v_expert_profile = None\<rparr>"

definition apply_history_payload :: "history_payload \<Rightarrow> validation \<Rightarrow> validation" where
  "apply_history_payload payload v =
     v\<lparr>v_scan_id := hp_scan_id payload, v_expert_id := hp_expert_id payload,
       v_ai_prediction := hp_ai_prediction payload,
       v_expert_validation := Some (hp_expert_validation payload),
       v_status := hp_status payload, v_validated_at := hp_validated_at payload,
       v_expert_comment := hp_expert_comment payload\<rparr>"

definition db_insert_history :: "history_payload \<Rightarrow> remote_db \<Rightarrow> supabase_error option \<times> remote_db" where
  "db_insert_history payload db =
     (let (f, db') = db_next_fault db
      in if f then (Some transport_failure, db')
         else if list_ex (same_pair (hp_scan_id payload) (hp_expert_id payload)) (db_history db')
         then (Some conflict_error, db')
         else (None, db'\<lparr>db_history :=
                 db_history db' @ [row_of_payload (fresh_id (db_history db')) payload]\<rparr>))"

definition db_update_history :: "int \<Rightarrow> string \<Rightarrow> history_payload \<Rightarrow> remote_db \<Rightarrow> supabase_error option \<times> remote_db" where
  "db_update_history scanId expertId payload db =
     (let (f, db') = db_next_fault db
      in if f then (Some transport_failure, db')
         else (None, db'\<lparr>db_history :=
                 map (\<lambda>v. if same_pair scanId expertId v then apply_history_payload payload v else v)
                   (db_history db')\<rparr>))"

definition db_fetch_all :: "remote_db \<Rightarrow> fetch_responses \<times> remote_db" where
  "db_fetch_all db =
     (let (f, db') = db_next_fault db
      in (\<lparr>scansResponse =
             (if f then \<lparr>r_data = None, r_error = Some transport_failure\<rparr>
              else \<lparr>r_data = Some (db_scans db'), r_error = None\<rparr>),
           validationsResponse = \<lparr>r_data = Some (db_history db'), r_error = None\<rparr>,
           profilesResponse_error = None,
           profilesResponse_count = Some (length (db_profiles db')),
           fallbackResponse =
             (\<lambda>ids. \<lparr>r_data = Some (filter (\<lambda>p. List.member ids (p_id p)) (db_profiles db')),
                     r_error = None\<rparr>)\<rparr>,
          db'))"

definition db_transport :: "remote_db transport" where
  "db_transport =
     \<lparr>t_update_scan = db_update_scan, t_insert_history = db_insert_history,
      t_update_history = db_update_history, t_fetch_all = db_fetch_all\<rparr>"

section \<open>The status invariant of the specification\<close>

text \<open>
  Modelled from the spec: "a Scan's status must always equal the status of its most
  recent ValidationRecord, or PendingValidation if none exists", which the code nowhere
  states as a predicate. The most recent record of a Scan is the one with the greatest
  action time among those that reference it (the first such, on a tie). Action times are
  ISO-8601 strings of one format, which order as the instants do; they are compared as
  strings, byte by byte.
\<close>

fun str_less :: "string \<Rightarrow> string \<Rightarrow> bool" where
  "str_less [] [] = False"
| "str_less [] (y # ys) = True"
| "str_less (x # xs) [] = False"
| "str_less (x # xs) (y # ys) =
     (of_char x < (of_char y :: nat) \<or> (x = y \<and> str_less xs ys))"

fun most_recent :: "int \<Rightarrow> validation list \<Rightarrow> validation option" where
  "most_recent scanId [] = None"
| "most_recent scanId (v # vs) =
     (if v_scan_id v = scanId
      then (case most_recent scanId vs of
              None \<Rightarrow> Some v
            | Some w \<Rightarrow> if str_less (v_validated_at v) (v_validated_at w) then Some w else Some v)
      else most_recent scanId vs)"

definition status_invariant :: "scan list \<Rightarrow> validation list \<Rightarrow> bool" where
  "status_invariant ss vs =
     list_all (\<lambda>s. s_status s =
                 (case most_recent (s_id s) vs of
                    None \<Rightarrow> PendingValidation
                  | Some v \<Rightarrow> scan_status_of (v_status v))) ss"

section \<open>Runs of the cache and of the coordinator\<close>

text \<open>
  The handlers and the reload suspend at their \<^verbatim>\<open>await\<close>s, and the parts before and
  after a suspension interleave with the parts of other chains. A step of the cache is
  one such part: the arrival of a notification (\<open>on_event\<close>), the continuation of a
  handler with the result of its point-fetch (\<open>on_fetched\<close>), the logout effect, the start
  of a reload, or the completion of a reload with the responses of the transport. Every
  run of the provider is a sequence of such steps.
\<close>

datatype store_step =
    Arrive change_event
  | Fetched change_event fetched
  | Logout
  | ReloadBegin bool bool
  | ReloadComplete fetch_responses

fun run_step :: "data_state \<Rightarrow> store_step \<Rightarrow> data_state" where
  "run_step d (Arrive ev) = snd (on_event d ev)"
| "run_step d (Fetched ev res) = on_fetched d ev res"
| "run_step d Logout = logout_effect d"
| "run_step d (ReloadBegin ready showSpinner) =
     (case fetchData_begin ready showSpinner d of None \<Rightarrow> d | Some d1 \<Rightarrow> d1)"
| "run_step d (ReloadComplete resp) = fetchData_complete resp d"

definition run :: "data_state \<Rightarrow> store_step list \<Rightarrow> data_state" where
  "run d steps = foldl run_step d steps"

text \<open>A handler run to its end without interleaving: the point-fetch, when one is
  issued, is answered by \<open>lookup\<close>.\<close>

definition answer :: "(point_fetch \<Rightarrow> fetched) \<Rightarrow> data_state \<Rightarrow> change_event \<Rightarrow> data_state" where
  "answer lookup d ev =
     (case on_event d ev of
        (None, d') \<Rightarrow> d'
      | (Some req, d') \<Rightarrow> on_fetched d' ev (lookup req))"

text \<open>
  A sequence of insert and update notifications on \<^verbatim>\<open>scans\<close>, each already answered
  by its point-fetch with the full record it carries.
\<close>

definition scan_event :: "event_kind \<Rightarrow> scan \<Rightarrow> change_event" where
  "scan_event k r = \<lparr>ev_kind = k, ev_table = T_scans, ev_id = Some (s_id r)\<rparr>"

definition validation_event :: "event_kind \<Rightarrow> validation \<Rightarrow> change_event" where
  "validation_event k v = \<lparr>ev_kind = k, ev_table = T_validation_history, ev_id = Some (v_id v)\<rparr>"

definition apply_scan_events :: "data_state \<Rightarrow> (event_kind \<times> scan) list \<Rightarrow> data_state" where
  "apply_scan_events d evs =
     foldl (\<lambda>d' (k, r). on_fetched d' (scan_event k r) (FetchedScan (Some r))) d evs"

text \<open>The INSERT handler of \<^verbatim>\<open>validation_history\<close>, run to its end with the record its
  point-fetch returned.\<close>

definition on_validation_insert :: "data_state \<Rightarrow> validation \<Rightarrow> data_state" where
  "on_validation_insert d v =
     on_fetched d (validation_event INSERT v) (FetchedValidation (Some v))"

text \<open>A run of \<^verbatim>\<open>handleValidation\<close> succeeded when it showed a success toast.\<close>

definition is_success :: "toast \<Rightarrow> bool" where
  "is_success t = (case t of ToastSuccess m \<Rightarrow> True | ToastError m \<Rightarrow> False)"

definition submit_succeeded :: "'r world \<Rightarrow> 'r world \<Rightarrow> bool" where
  "submit_succeeded w w' = list_ex is_success (drop (length (w_toasts w)) (w_toasts w'))"

section \<open>Example inputs\<close>

definition ex_scan :: "int \<Rightarrow> string \<Rightarrow> scan_status \<Rightarrow> scan" where
  "ex_scan i prediction st =
     \<lparr>s_id = i, s_farmer_id = ''farmer-1'', s_scan_type = leaf_disease,
      s_ai_prediction = prediction, s_image_url = ''leaf.jpg'', s_status = st,
      s_created_at = ''2024-05-01T08:00:00.000Z'', s_updated_at = ''2024-05-01T08:00:00.000Z'',
      s_scan_uuid = ''uuid-1'', s_expert_comment = None, s_expert_validation = None,
      s_farmer_profile = None\<rparr>"

definition ex_validation :: "int \<Rightarrow> int \<Rightarrow> string \<Rightarrow> history_status \<Rightarrow> string \<Rightarrow> validation" where
  "ex_validation i scanId expert st at =
     \<lparr>v_id = i, v_scan_id = scanId, v_expert_id = expert, v_ai_prediction = ''Downy Mildew'',
      v_expert_validation = Some ''Downy Mildew'', v_status = st, v_validated_at = at,
      v_expert_comment = None, v_expert_profile = None\<rparr>"

definition ex_ready :: "scan list \<Rightarrow> validation list \<Rightarrow> data_state" where
  "ex_ready ss vs =
     \<lparr>scans = ss, validationHistory = vs, totalUsers = 3, loading = False, error = None,
      initialFetched = True, isFetchingRef = False\<rparr>"

definition ex_responses :: "scan list \<Rightarrow> validation list \<Rightarrow> nat \<Rightarrow> fetch_responses" where
  "ex_responses ss vs n =
     \<lparr>scansResponse = \<lparr>r_data = Some ss, r_error = None\<rparr>,
      validationsResponse = \<lparr>r_data = Some vs, r_error = None\<rparr>,
      profilesResponse_error = None, profilesResponse_count = Some n,
      fallbackResponse = (\<lambda>ids. \<lparr>r_data = Some [], r_error = None\<rparr>)\<rparr>"

definition ex_profile_event :: "event_kind \<Rightarrow> change_event" where
  "ex_profile_event k = \<lparr>ev_kind = k, ev_table = T_profiles, ev_id = None\<rparr>"

text \<open>Two audit records of Scan 5 by two experts; \<open>ex_late\<close> is the older one.\<close>

definition ex_late :: validation where
  "ex_late = ex_validation 1 5 ''expert-a'' HValidated ''2024-05-02T09:00:00.000Z''"

definition ex_newer :: validation where
  "ex_newer = ex_validation 2 5 ''expert-b'' HCorrected ''2024-05-03T09:00:00.000Z''"

definition ex_store :: data_state where
  "ex_store = ex_ready [ex_scan 5 ''Downy Mildew'' Corrected] [ex_newer]"

definition ex_user :: user where
  "ex_user = \<lparr>u_id = ''expert-a'', u_email = None\<rparr>"

definition ex_page :: page_state where
  "ex_page = \<lparr>notes = Map.empty, decision = Map.empty, detailId = None, processingScanId = None\<rparr>"

definition ex_db :: "validation list \<Rightarrow> bool list \<Rightarrow> remote_db" where
  "ex_db vs faults =
     \<lparr>db_scans = [ex_scan 42 ''Downy Mildew'' PendingValidation], db_history = vs,
      db_profiles = [], db_faults = faults\<rparr>"

text \<open>The scenario of the specification: Scan 42, pending, predicted "Downy Mildew".\<close>

definition ex_world :: "validation list \<Rightarrow> bool list \<Rightarrow> remote_db world" where
  "ex_world vs faults =
     \<lparr>w_user = Some ex_user,
      w_data = ex_ready [ex_scan 42 ''Downy Mildew'' PendingValidation] [],
      w_page = ex_page, w_remote = ex_db vs faults,
      w_calls = [], w_toasts = [], w_console = []\<rparr>"

text \<open>The instants of a submit and of its rollback.\<close>

definition ex_now :: string where
  "ex_now = ''2024-05-02T09:00:00.000Z''"

definition ex_later :: string where
  "ex_later = ''2024-05-02T09:00:01.000Z''"

text \<open>The constants of a confirm by the example user of a pending Scan without drafts,
  and the world once the confirm of Scan 42 has passed its guards.\<close>

definition ex_submit :: "int \<Rightarrow> string \<Rightarrow> submit" where
  "ex_submit i prediction =
     \<lparr>sb_scanId = i, sb_action = confirm, sb_scanKey = toString i, sb_user_id = ''expert-a'',
      sb_ai_prediction = prediction, sb_note = None,
      sb_expertValidation = prediction, sb_status = HValidated,
      sb_timestamp = ex_now, sb_originalStatus = PendingValidation,
      sb_detailId = None, sb_isReady = True\<rparr>"

definition ex_started :: "validation list \<Rightarrow> bool list \<Rightarrow> remote_db world" where
  "ex_started vs faults = (ex_world vs faults)\<lparr>w_page := ex_page\<lparr>processingScanId := Some 42\<rparr>\<rparr>"

text \<open>The worlds in which the three runs of the confirm of Scan 42 end: with an empty
  remote history, with a remote record of the same expert, and with a transport that
  fails the insert and the rollback.\<close>

definition ex_validated_scan :: scan where
  "ex_validated_scan = (ex_scan 42 ''Downy Mildew'' Validated)\<lparr>s_updated_at := ex_now\<rparr>"

definition ex_existing :: validation where
  "ex_existing = ex_validation 7 42 ''expert-a'' HCorrected ''2024-05-01T10:00:00.000Z''"

definition ex_done :: "int \<Rightarrow> call list \<Rightarrow> remote_db world" where
  "ex_done new_id cs =
     \<lparr>w_user = Some ex_user,
      w_data = \<lparr>scans = [ex_validated_scan],
                validationHistory = [ex_validation new_id 42 ''expert-a'' HValidated ex_now],
                totalUsers = 0, loading = False, error = None, initialFetched = True,
                isFetchingRef = False\<rparr>,
      w_page = ex_page,
      w_remote = \<lparr>db_scans = [ex_validated_scan],
                   db_history = [ex_validation new_id 42 ''expert-a'' HValidated ex_now],
                   db_profiles = [], db_faults = []\<rparr>,
      w_calls = cs,
      w_toasts = [ToastSuccess ''Validation for scan 42 confirmed''],
      w_console = []\<rparr>"

definition ex_confirmed :: "remote_db world" where
  "ex_confirmed =
     ex_done 1
       [UpdateScan 42 \<lparr>sp_status = Validated, sp_updated_at = ex_now\<rparr>,
        InsertHistory (insertPayload (ex_submit 42 ''Downy Mildew'')), FetchAll]"

definition ex_reconfirmed :: "remote_db world" where
  "ex_reconfirmed =
     ex_done 7
       [UpdateScan 42 \<lparr>sp_status = Validated, sp_updated_at = ex_now\<rparr>,
        InsertHistory (insertPayload (ex_submit 42 ''Downy Mildew'')),
        UpdateHistory 42 ''expert-a'' (insertPayload (ex_submit 42 ''Downy Mildew'')), FetchAll]"

definition ex_rolled_back :: "remote_db world" where
  "ex_rolled_back =
     \<lparr>w_user = Some ex_user,
      w_data = ex_ready [ex_scan 42 ''Downy Mildew'' PendingValidation] [],
      w_page = ex_page,
      w_remote = \<lparr>db_scans = [ex_validated_scan], db_history = [], db_profiles = [],
                   db_faults = []\<rparr>,
      w_calls =
        [UpdateScan 42 \<lparr>sp_status = Validated, sp_updated_at = ex_now\<rparr>,
         InsertHistory (insertPayload (ex_submit 42 ''Downy Mildew'')),
         UpdateScan 42 \<lparr>sp_status = PendingValidation, sp_updated_at = ex_later\<rparr>],
      w_toasts = [ToastError ''Failed to confirm validation''],
      w_console = [''Error creating validation history:'', ''Failed to rollback scan update:'',
                   ''Error confirming validation:'']\<rparr>"

text \<open>Two pending Scans, for runs that interleave two submits.\<close>

definition ex_world2 :: "remote_db world" where
  "ex_world2 =
     \<lparr>w_user = Some ex_user,
      w_data = ex_ready [ex_scan 1 ''Downy Mildew'' PendingValidation,
                         ex_scan 2 ''Leaf Spot'' PendingValidation] [],
      w_page = ex_page,
      w_remote = \<lparr>db_scans = [ex_scan 1 ''Downy Mildew'' PendingValidation,
                               ex_scan 2 ''Leaf Spot'' PendingValidation],
                   db_history = [], db_profiles = [], db_faults = []\<rparr>,
      w_calls = [], w_toasts = [], w_console = []\<rparr>"

definition ex_marked :: "int \<Rightarrow> remote_db world" where
  "ex_marked k = ex_world2\<lparr>w_page := ex_page\<lparr>processingScanId := Some k\<rparr>\<rparr>"

text \<open>A draft decision for Scan 42 that holds only white space.\<close>

definition ex_blank_world :: "remote_db world" where
  "ex_blank_world = (ex_world [] [])\<lparr>w_page := ex_page\<lparr>decision := [''42'' \<mapsto> ''  '']\<rparr>\<rparr>"

section \<open>Properties of the cache\<close>

subsection \<open>Index search and the updaters\<close>

lemma findIndex_Some:
  "findIndex P xs = Some i \<Longrightarrow> i < length xs \<and> P (xs ! i) \<and> (\<forall>j<i. \<not> P (xs ! j))"
proof (induction xs arbitrary: i)
  case Nil
  then show ?case by simp
next
  case (Cons x xs)
  show ?case
  proof (cases "P x")
    case True
    with Cons.prems show ?thesis by simp
  next
    case False
    with Cons.prems obtain k where k: "findIndex P xs = Some k" "i = Suc k"
      by (auto split: option.splits)
    from Cons.IH [OF k(1)] False k(2) show ?thesis
      by (auto simp: nth_Cons split: nat.splits)
  qed
qed

lemma findIndex_None: "findIndex P xs = None \<longleftrightarrow> \<not> list_ex P xs"
  by (induction xs) (auto split: option.splits)

lemma findIndex_list_update:
  "findIndex P xs = Some i \<Longrightarrow> P y \<Longrightarrow> findIndex P (xs[i := y]) = Some i"
proof (induction xs arbitrary: i)
  case Nil
  then show ?case by simp
next
  case (Cons x xs)
  show ?case
  proof (cases "P x")
    case True
    with Cons.prems show ?thesis by simp
  next
    case False
    with Cons.prems obtain k where k: "findIndex P xs = Some k" "i = Suc k"
      by (auto split: option.splits)
    from Cons.IH [OF k(1) Cons.prems(2)] False k(2) show ?thesis by simp
  qed
qed

lemma update_scan_twice:
  assumes "s_id r1 = s_id r2"
  shows "update_scan r2 (update_scan r1 prev) = update_scan r2 prev"
proof (cases "findIndex (\<lambda>s. s_id s = s_id r2) prev")
  case None
  then show ?thesis using assms by (simp add: update_scan_def)
next
  case (Some i)
  have "findIndex (\<lambda>s. s_id s = s_id r2) (prev[i := r1]) = Some i"
    using findIndex_list_update [OF Some, of r1] assms by simp
  then show ?thesis using Some assms by (simp add: update_scan_def)
qed

lemma insert_scan_present:
  "list_ex (\<lambda>s. s_id s = s_id r) prev \<Longrightarrow> insert_scan r prev = prev"
  by (simp add: insert_scan_def some_def)

lemma update_scan_fold:
  "rs \<noteq> [] \<Longrightarrow> list_all (\<lambda>r. s_id r = i) rs \<Longrightarrow>
   foldl (\<lambda>p r. update_scan r p) prev rs = update_scan (last rs) prev"
proof (induction rs arbitrary: prev)
  case Nil
  then show ?case by simp
next
  case (Cons r rs)
  show ?case
  proof (cases "rs = []")
    case True
    then show ?thesis by simp
  next
    case False
    from Cons.prems have all: "list_all (\<lambda>r. s_id r = i) rs" and r: "s_id r = i" by simp_all
    have "s_id (last rs) = i" using False all by (simp add: list_all_iff)
    with r have same: "s_id r = s_id (last rs)" by simp
    have "foldl (\<lambda>p r. update_scan r p) prev (r # rs) = update_scan (last rs) (update_scan r prev)"
      using Cons.IH [OF False all] by simp
    also have "\<dots> = update_scan (last rs) prev" by (rule update_scan_twice [OF same])
    finally show ?thesis using False by simp
  qed
qed


lemma apply_updates:
  "list_all (\<lambda>(k, r). k = UPDATE) evs \<Longrightarrow>
   scans (apply_scan_events d evs) = foldl (\<lambda>p r. update_scan r p) (scans d) (map snd evs)"
  unfolding apply_scan_events_def
proof (induction evs arbitrary: d)
  case Nil
  then show ?case by simp
next
  case (Cons e evs)
  obtain k r where e: "e = (k, r)" by (cases e)
  with Cons.prems have k: "k = UPDATE" and rest: "list_all (\<lambda>(k, r). k = UPDATE) evs" by simp_all
  have step: "scans (on_fetched d (scan_event k r) (FetchedScan (Some r))) = update_scan r (scans d)"
    by (simp add: k on_fetched_def scan_event_def)
  show ?case using Cons.IH [OF rest] step e by simp
qed

lemma map_id_update:
  "i < length xs \<Longrightarrow> s_id (xs ! i) = s_id r \<Longrightarrow> map s_id (xs[i := r]) = map s_id xs"
  by (simp add: map_update list_update_same_conv)

lemma update_scan_distinct:
  "distinct (map s_id prev) \<Longrightarrow> distinct (map s_id (update_scan r prev))"
proof (cases "findIndex (\<lambda>s. s_id s = s_id r) prev")
  case None
  assume d: "distinct (map s_id prev)"
  from None have "s_id r \<notin> s_id ` set prev" by (auto simp: findIndex_None list_ex_iff)
  with d None show ?thesis by (simp add: update_scan_def)
next
  case (Some i)
  assume d: "distinct (map s_id prev)"
  from findIndex_Some [OF Some] have "i < length prev" "s_id (prev ! i) = s_id r" by simp_all
  then have "map s_id (prev[i := r]) = map s_id prev" by (rule map_id_update)
  with d Some show ?thesis by (simp add: update_scan_def)
qed

lemma insert_scan_distinct:
  "distinct (map s_id prev) \<Longrightarrow> distinct (map s_id (insert_scan r prev))"
  by (auto simp: insert_scan_def some_def list_ex_iff)

lemma apply_scan_events_distinct:
  "distinct (map s_id (scans d)) \<Longrightarrow> distinct (map s_id (scans (apply_scan_events d evs)))"
  unfolding apply_scan_events_def
proof (induction evs arbitrary: d)
  case Nil
  then show ?case by simp
next
  case (Cons e evs)
  obtain k r where e: "e = (k, r)" by (cases e)
  have "distinct (map s_id (scans (on_fetched d (scan_event k r) (FetchedScan (Some r)))))"
    using Cons.prems
    by (cases k) (simp_all add: on_fetched_def scan_event_def update_scan_distinct insert_scan_distinct)
  from Cons.IH [OF this] e show ?case by simp
qed

subsection \<open>The derived count\<close>

lemma on_event_totalUsers_nonneg:
  "0 \<le> totalUsers d \<Longrightarrow> 0 \<le> totalUsers (snd (on_event d ev))"
  by (cases "ev_table ev"; cases "ev_kind ev") (simp_all add: on_event_def)

lemma on_fetched_totalUsers: "totalUsers (on_fetched d ev res) = totalUsers d"
  by (simp add: on_fetched_def split: table.splits event_kind.splits fetched.splits option.splits)

lemma fetchData_complete_totalUsers_nonneg:
  "0 \<le> totalUsers d \<Longrightarrow> 0 \<le> totalUsers (fetchData_complete resp d)"
  by (simp add: fetchData_complete_def fetchData_failed_def Let_def split: option.splits)

lemma fetchData_begin_totalUsers:
  "fetchData_begin r sp d = Some d1 \<Longrightarrow> totalUsers d1 = totalUsers d"
  by (auto simp: fetchData_begin_def split: if_splits)

lemma run_step_totalUsers_nonneg:
  "0 \<le> totalUsers d \<Longrightarrow> 0 \<le> totalUsers (run_step d st)"
proof (cases st)
  case (Arrive ev)
  assume "0 \<le> totalUsers d"
  then show ?thesis using Arrive by (simp add: on_event_totalUsers_nonneg)
next
  case (Fetched ev res)
  assume "0 \<le> totalUsers d"
  then show ?thesis using Fetched by (simp add: on_fetched_totalUsers)
next
  case Logout
  then show ?thesis by (simp add: logout_effect_def)
next
  case (ReloadBegin ready showSpinner)
  assume nn: "0 \<le> totalUsers d"
  show ?thesis
  proof (cases "fetchData_begin ready showSpinner d")
    case None
    then show ?thesis using ReloadBegin nn by simp
  next
    case (Some d1)
    then show ?thesis using ReloadBegin nn by (simp add: fetchData_begin_totalUsers)
  qed
next
  case (ReloadComplete resp)
  assume "0 \<le> totalUsers d"
  then show ?thesis using ReloadComplete by (simp add: fetchData_complete_totalUsers_nonneg)
qed

lemma run_totalUsers_nonneg:
  "0 \<le> totalUsers d \<Longrightarrow> 0 \<le> totalUsers (run d steps)"
  unfolding run_def
  by (induction steps arbitrary: d) (simp_all add: run_step_totalUsers_nonneg)

subsection \<open>Claims about the cache\<close>

text \<open>
  Claim C3, as the code has it. In a sequence of UPDATE notifications that carry records
  of one identity, the Scan collection ends as the last record alone would leave it: the
  update overwrites the stored entry in place, or prepends the record when the identity
  is absent. An INSERT notification for an identity already present leaves the collection
  as it is, so the stored entry is retained, not overwritten, and no second entry is
  appended; for an absent identity it prepends the record. Neither handler ever produces
  two entries of one identity.
\<close>

theorem C3_update_overwrites_insert_retains:
  "(evs \<noteq> [] \<and> list_all (\<lambda>(k, r). k = UPDATE \<and> s_id r = i) evs \<longrightarrow>
      scans (apply_scan_events d evs) = scans (apply_scan_events d [last evs]))
   \<and> (list_ex (\<lambda>s. s_id s = s_id r) (scans d) \<longrightarrow>
        scans (apply_scan_events d [(INSERT, r)]) = scans d)
   \<and> (\<not> list_ex (\<lambda>s. s_id s = s_id r) (scans d) \<longrightarrow>
        scans (apply_scan_events d [(INSERT, r)]) = r # scans d)
   \<and> (distinct (map s_id (scans d)) \<longrightarrow>
        distinct (map s_id (scans (apply_scan_events d evs))))"
proof -
  have upd: "scans (apply_scan_events d evs) = scans (apply_scan_events d [last evs])"
    if ne: "evs \<noteq> []" and all: "list_all (\<lambda>(k, r). k = UPDATE \<and> s_id r = i) evs"
  proof -
    from all have k: "list_all (\<lambda>(k, r). k = UPDATE) evs"
      and ids: "list_all (\<lambda>r. s_id r = i) (map snd evs)"
      by (auto simp: list_all_iff)
    from ne have "last evs \<in> set evs" by simp
    with all have kl: "list_all (\<lambda>(k, r). k = UPDATE) [last evs]"
      by (auto simp: list_all_iff)
    have "scans (apply_scan_events d evs) = update_scan (last (map snd evs)) (scans d)"
      using apply_updates [OF k] update_scan_fold [OF _ ids] ne by simp
    also have "\<dots> = scans (apply_scan_events d [last evs])"
      using apply_updates [OF kl] ne by (simp add: last_map)
    finally show ?thesis .
  qed
  have ins: "scans (apply_scan_events d [(INSERT, r)]) = insert_scan r (scans d)"
    by (simp add: apply_scan_events_def on_fetched_def scan_event_def)
  show ?thesis using upd ins apply_scan_events_distinct [of d evs]
    by (auto simp: insert_scan_def some_def)
qed

theorem C3_update_overwrites_insert_retains_witness:
  "[(UPDATE, ex_scan 7 ''Downy Mildew'' Validated), (UPDATE, ex_scan 7 ''Downy Mildew'' Corrected)] \<noteq> []
   \<and> list_all (\<lambda>(k, r). k = UPDATE \<and> s_id r = 7)
        [(UPDATE, ex_scan 7 ''Downy Mildew'' Validated), (UPDATE, ex_scan 7 ''Downy Mildew'' Corrected)]
   \<and> list_ex (\<lambda>s. s_id s = s_id (ex_scan 7 ''Downy Mildew'' Corrected))
        (scans (ex_ready [ex_scan 7 ''Downy Mildew'' PendingValidation] []))
   \<and> distinct (map s_id (scans (ex_ready [ex_scan 7 ''Downy Mildew'' PendingValidation] [])))
   \<and> scans (apply_scan_events (ex_ready [ex_scan 7 ''Downy Mildew'' PendingValidation] [])
        [(UPDATE, ex_scan 7 ''Downy Mildew'' Validated), (UPDATE, ex_scan 7 ''Downy Mildew'' Corrected)])
     = scans (apply_scan_events (ex_ready [ex_scan 7 ''Downy Mildew'' PendingValidation] [])
        [(UPDATE, ex_scan 7 ''Downy Mildew'' Corrected)])
   \<and> scans (apply_scan_events (ex_ready [ex_scan 7 ''Downy Mildew'' PendingValidation] [])
        [(INSERT, ex_scan 7 ''Downy Mildew'' Corrected)])
     = [ex_scan 7 ''Downy Mildew'' PendingValidation]
   \<and> distinct (map s_id (scans (apply_scan_events
        (ex_ready [ex_scan 7 ''Downy Mildew'' PendingValidation] [])
        [(UPDATE, ex_scan 7 ''Downy Mildew'' Validated), (UPDATE, ex_scan 7 ''Downy Mildew'' Corrected)])))"
  using C3_update_overwrites_insert_retains
    [of "[(UPDATE, ex_scan 7 ''Downy Mildew'' Validated), (UPDATE, ex_scan 7 ''Downy Mildew'' Corrected)]"
        7 "ex_ready [ex_scan 7 ''Downy Mildew'' PendingValidation] []"
        "ex_scan 7 ''Downy Mildew'' Corrected"]
  by (simp add: ex_ready_def ex_scan_def apply_scan_events_def on_fetched_def scan_event_def
      update_scan_def insert_scan_def some_def)

text \<open>
  Claim C3 as stated fails: two INSERT notifications of identity 7 that carry different
  records leave the first record in the collection, not the last.
\<close>

theorem C3_counterexample:
  "scans (apply_scan_events (ex_ready [] [])
            [(INSERT, ex_scan 7 ''Downy Mildew'' PendingValidation),
             (INSERT, ex_scan 7 ''Downy Mildew'' Validated)])
   \<noteq> scans (apply_scan_events (ex_ready [] []) [(INSERT, ex_scan 7 ''Downy Mildew'' Validated)])"
  by (simp add: apply_scan_events_def on_fetched_def scan_event_def insert_scan_def some_def
      ex_ready_def ex_scan_def)




text \<open>
  Claim C7. A notification of any kind on any collection that arrives while
  \<^verbatim>\<open>initialFetched\<close> is unset (before the first full load has completed) is ignored:
  the handler issues no point-fetch and leaves the whole cache state as it is.
\<close>

theorem C7_events_before_first_load_ignored:
  "\<not> initialFetched d \<Longrightarrow> on_event d ev = (None, d) \<and> answer lookup d ev = d"
  by (cases "ev_table ev"; cases "ev_kind ev") (simp_all add: on_event_def answer_def)

theorem C7_events_before_first_load_ignored_witness:
  "\<not> initialFetched initial_data_state
   \<and> on_event initial_data_state (scan_event INSERT (ex_scan 5 ''Downy Mildew'' PendingValidation))
       = (None, initial_data_state)
   \<and> on_event initial_data_state (ex_profile_event INSERT) = (None, initial_data_state)"
proof -
  have h: "\<not> initialFetched initial_data_state" by (simp add: initial_data_state_def)
  show ?thesis
    using h C7_events_before_first_load_ignored [OF h]
    by simp
qed

text \<open>
  Claim C8, as the code has it. When the INSERT handler of \<^verbatim>\<open>validation_history\<close>
  processes a fetched record whose Scan reference is non-zero and whose Scan is in the
  cache, it upserts the record and, in the same step, sets the status of that Scan to the
  status the record carries (Validated or Corrected), taken from the fetched record, with
  no query of the Scan. The Scan's status then equals the status of its most recent
  ValidationRecord whenever the record just applied is the most recent one of that Scan.
\<close>

theorem C8_insert_reflects_status_onto_scan:
  assumes present: "findIndex (\<lambda>s. s_id s = v_scan_id v) (scans d) = Some i"
      and ref: "v_scan_id v \<noteq> 0"
  shows "validationHistory (on_validation_insert d v) = insert_validation v (validationHistory d)
       \<and> scans (on_validation_insert d v) =
           (scans d)[i := (scans d ! i)\<lparr>s_status := scan_status_of (v_status v),
                         s_expert_validation := or_null (v_expert_validation v)\<rparr>]
       \<and> i < length (scans (on_validation_insert d v))
       \<and> s_id (scans (on_validation_insert d v) ! i) = v_scan_id v
       \<and> s_status (scans (on_validation_insert d v) ! i) =
           (case v_status v of HValidated \<Rightarrow> Validated | HCorrected \<Rightarrow> Corrected)
       \<and> (most_recent (v_scan_id v) (validationHistory (on_validation_insert d v)) = Some v \<longrightarrow>
            s_status (scans (on_validation_insert d v) ! i) =
              (case most_recent (v_scan_id v) (validationHistory (on_validation_insert d v)) of
                 None \<Rightarrow> PendingValidation | Some w \<Rightarrow> scan_status_of (v_status w)))"
proof -
  from findIndex_Some [OF present] have i: "i < length (scans d)" "s_id (scans d ! i) = v_scan_id v"
    by simp_all
  have sc: "scans (on_validation_insert d v) =
      (scans d)[i := (scans d ! i)\<lparr>s_status := scan_status_of (v_status v),
                         s_expert_validation := or_null (v_expert_validation v)\<rparr>]"
    using present ref
    by (simp add: on_validation_insert_def on_fetched_def validation_event_def reflect_validation_def)
  have h: "validationHistory (on_validation_insert d v) = insert_validation v (validationHistory d)"
    by (simp add: on_validation_insert_def on_fetched_def validation_event_def)
  have st: "s_status (scans (on_validation_insert d v) ! i) = scan_status_of (v_status v)"
    using sc i by simp
  show ?thesis using sc h i st
    by (cases "v_status v") (simp_all add: scan_status_of_def)
qed

theorem C8_insert_reflects_status_onto_scan_witness:
  "findIndex (\<lambda>s. s_id s = v_scan_id ex_late)
       (scans (ex_ready [ex_scan 5 ''Downy Mildew'' PendingValidation] [])) = Some 0
   \<and> v_scan_id ex_late \<noteq> 0
   \<and> most_recent (v_scan_id ex_late)
       (validationHistory (on_validation_insert
          (ex_ready [ex_scan 5 ''Downy Mildew'' PendingValidation] []) ex_late)) = Some ex_late
   \<and> s_status (scans (on_validation_insert
          (ex_ready [ex_scan 5 ''Downy Mildew'' PendingValidation] []) ex_late) ! 0) = Validated
   \<and> validationHistory (on_validation_insert
          (ex_ready [ex_scan 5 ''Downy Mildew'' PendingValidation] []) ex_late) = [ex_late]"
proof -
  have p: "findIndex (\<lambda>s. s_id s = v_scan_id ex_late)
       (scans (ex_ready [ex_scan 5 ''Downy Mildew'' PendingValidation] [])) = Some 0"
    by (simp add: ex_ready_def ex_scan_def ex_late_def ex_validation_def)
  have r: "v_scan_id ex_late \<noteq> 0" by (simp add: ex_late_def ex_validation_def)
  show ?thesis
    using p r C8_insert_reflects_status_onto_scan [OF p r]
    by (simp add: ex_ready_def ex_scan_def ex_late_def ex_validation_def insert_validation_def
        some_def on_validation_insert_def on_fetched_def validation_event_def
        reflect_validation_def scan_status_of_def or_null_def truthy_str_def)
qed

text \<open>
  Claim C8 as stated fails in its last part. The cache holds Scan 5 with the status of
  its only record, the newer one; the INSERT notification of the older record of another
  expert is applied late, and the Scan's status becomes that of the older record while
  the newer one is still the most recent.
\<close>

theorem C8_counterexample:
  "status_invariant (scans ex_store) (validationHistory ex_store)
   \<and> findIndex (\<lambda>s. s_id s = v_scan_id ex_late) (scans ex_store) = Some 0
   \<and> \<not> status_invariant (scans (on_validation_insert ex_store ex_late))
         (validationHistory (on_validation_insert ex_store ex_late))"
  by (simp add: status_invariant_def ex_store_def ex_ready_def ex_scan_def ex_late_def ex_newer_def
       ex_validation_def on_validation_insert_def on_fetched_def validation_event_def
       insert_validation_def some_def reflect_validation_def scan_status_of_def or_null_def
       truthy_str_def)

text \<open>
  Claim C10. The derived user count is never negative. It starts at 0; a Profile INSERT
  notification handled after the first load adds exactly 1; a Profile DELETE notification
  subtracts 1 and clamps the result at 0; logout resets it to 0; a reload commits a row
  count. So after every sequence of steps of the cache, in any interleaving and with any
  number of repeated deletes, the count is at least 0.
\<close>

theorem C10_totalUsers_never_negative:
  "totalUsers initial_data_state = 0
   \<and> (initialFetched d \<longrightarrow>
        totalUsers (snd (on_event d \<lparr>ev_kind = INSERT, ev_table = T_profiles, ev_id = i\<rparr>))
          = totalUsers d + 1)
   \<and> (initialFetched d \<longrightarrow>
        totalUsers (snd (on_event d \<lparr>ev_kind = DELETE, ev_table = T_profiles, ev_id = i\<rparr>))
          = max 0 (totalUsers d - 1))
   \<and> totalUsers (logout_effect d) = 0
   \<and> 0 \<le> totalUsers (run initial_data_state steps)"
proof -
  have "0 \<le> totalUsers (run initial_data_state steps)"
    by (rule run_totalUsers_nonneg) (simp add: initial_data_state_def)
  then show ?thesis
    by (simp add: initial_data_state_def on_event_def logout_effect_def)
qed

theorem C10_totalUsers_never_negative_witness:
  "initialFetched (ex_ready [] [])
   \<and> totalUsers (snd (on_event (ex_ready [] []) (ex_profile_event INSERT))) = 4
   \<and> totalUsers (snd (on_event (ex_ready [] []) (ex_profile_event DELETE))) = 2
   \<and> 0 \<le> totalUsers (run initial_data_state
        [ReloadBegin True True, ReloadComplete (ex_responses [] [] 1),
         Arrive (ex_profile_event DELETE), Arrive (ex_profile_event DELETE)])
   \<and> totalUsers (run initial_data_state
        [ReloadBegin True True, ReloadComplete (ex_responses [] [] 1),
         Arrive (ex_profile_event DELETE), Arrive (ex_profile_event DELETE)]) = 0"
  using C10_totalUsers_never_negative
    [of "ex_ready [] []" None
        "[ReloadBegin True True, ReloadComplete (ex_responses [] [] 1),
          Arrive (ex_profile_event DELETE), Arrive (ex_profile_event DELETE)]"]
  by (simp add: run_def initial_data_state_def ex_responses_def ex_profile_event_def ex_ready_def
      fetchData_begin_def fetchData_complete_def missingExpertIds_def on_event_def)

section \<open>Properties of the coordinator\<close>

subsection \<open>The guards and the blocks of \<^verbatim>\<open>handleValidation\<close>\<close>

lemma trim_blank: "list_all is_space c \<Longrightarrow> trim c = []"
proof -
  assume "list_all is_space c"
  then have "dropWhile is_space c = []" by (simp add: list_all_iff)
  then show ?thesis by (simp only: trim_def rev.simps dropWhile.simps)
qed

lemma begin_Some:
  assumes "handleValidation_begin now scanId act w = (Some sb, w0)"
  shows "processingScanId (w_page w) \<noteq> Some scanId"
    and "isReady (w_user w)"
    and "w0 = w\<lparr>w_page := (w_page w)\<lparr>processingScanId := Some scanId\<rparr>\<rparr>"
    and "sb_scanId sb = scanId" and "sb_action sb = act" and "sb_timestamp sb = now"
    and "sb_scanKey sb = toString scanId"
    and "sb_user_id sb = u_id (the (w_user w))"
    and "sb_status sb = (if act = confirm then HValidated else HCorrected)"
    and "sb_detailId sb = detailId (w_page w)"
    and "sb_expertValidation sb \<noteq> []"
    and "\<exists>sel. find (\<lambda>s. s_id s = scanId) (scans (w_data w)) = Some sel
           \<and> sb_originalStatus sb = s_status sel \<and> sb_ai_prediction sb = s_ai_prediction sel
           \<and> (act = confirm \<longrightarrow> sb_expertValidation sb = s_ai_prediction sel)"
  using assms
  by (auto simp: handleValidation_begin_def Let_def toast_error_def
      split: if_splits option.splits)

lemma begin_remote:
  "handleValidation_begin now scanId act w = (r, w0) \<Longrightarrow>
   w_remote w0 = w_remote w \<and> w_calls w0 = w_calls w \<and> w_data w0 = w_data w
   \<and> w_console w0 = w_console w \<and> w_user w0 = w_user w"
  by (auto simp: handleValidation_begin_def Let_def toast_error_def
      split: if_splits option.splits)

lemma begin_toasts_Some:
  "handleValidation_begin now scanId act w = (Some sb, w0) \<Longrightarrow> w_toasts w0 = w_toasts w"
  using begin_Some(3) [of now scanId act w sb w0] by simp

lemma finally_fields:
  "w_calls (handleValidation_finally sb w) = w_calls w"
  "w_toasts (handleValidation_finally sb w) = w_toasts w"
  "w_console (handleValidation_finally sb w) = w_console w"
  "w_remote (handleValidation_finally sb w) = w_remote w"
  "w_data (handleValidation_finally sb w) = w_data w"
  by (simp_all add: handleValidation_finally_def)

lemma catch_True:
  assumes "t_update_scan tr (sb_scanId sb) \<lparr>sp_status = sb_originalStatus sb, sp_updated_at = rb\<rparr> (w_remote w) = (e, r')"
  shows "w_calls (handleValidation_catch tr rb sb True w) =
           w_calls w @ [UpdateScan (sb_scanId sb) \<lparr>sp_status = sb_originalStatus sb, sp_updated_at = rb\<rparr>]"
    and "w_remote (handleValidation_catch tr rb sb True w) = r'"
    and "w_console (handleValidation_catch tr rb sb True w) =
           w_console w @ (if e = None then [] else [''Failed to rollback scan update:''])
             @ [if sb_action sb = confirm then ''Error confirming validation:''
                else ''Error correcting validation:'']"
    and "w_toasts (handleValidation_catch tr rb sb True w) =
           w_toasts w @ [ToastError (if sb_action sb = confirm then ''Failed to confirm validation''
                                     else ''Failed to correct validation'')]"
    and "w_data (handleValidation_catch tr rb sb True w) = w_data w"
  using assms
  by (auto simp: handleValidation_catch_def applyScanUpdate_def Let_def finally_fields
      console_error_def toast_error_def split: option.splits)

lemma catch_False:
  shows "w_calls (handleValidation_catch tr rb sb False w) = w_calls w"
    and "w_remote (handleValidation_catch tr rb sb False w) = w_remote w"
    and "w_toasts (handleValidation_catch tr rb sb False w) =
           w_toasts w @ [ToastError (if sb_action sb = confirm then ''Failed to confirm validation''
                                     else ''Failed to correct validation'')]"
    and "w_data (handleValidation_catch tr rb sb False w) = w_data w"
  by (auto simp: handleValidation_catch_def Let_def finally_fields
      console_error_def toast_error_def)

lemma refreshData_fields:
  "w_toasts (refreshData tr ready w) = w_toasts w"
  "w_page (refreshData tr ready w) = w_page w"
  "w_user (refreshData tr ready w) = w_user w"
  by (auto simp: refreshData_def Let_def split: option.splits prod.splits)

lemma refreshData_calls:
  "w_calls (refreshData tr ready w) =
     w_calls w @ (if ready \<and> \<not> isFetchingRef (w_data w) then [FetchAll] else [])"
  by (auto simp: refreshData_def fetchData_begin_def Let_def split: option.splits prod.splits)

lemma refreshData_console:
  "w_console (refreshData tr ready w) =
     w_console w @ (if ready \<and> \<not> isFetchingRef (w_data w)
                    then fetchData_console (fst (t_fetch_all tr (w_remote w))) else [])"
  by (auto simp: refreshData_def fetchData_begin_def Let_def split: option.splits prod.splits)

lemma begin_ready:
  "handleValidation_begin now scanId act w = (Some sb, w0) \<Longrightarrow> sb_isReady sb"
  by (auto simp: handleValidation_begin_def Let_def toast_error_def
      split: if_splits option.splits)

lemma success_fields:
  shows "w_calls (handleValidation_success tr sb w) =
           w_calls w @ (if sb_isReady sb \<and> \<not> isFetchingRef (w_data w) then [FetchAll] else [])"
    and "w_toasts (handleValidation_success tr sb w) =
           w_toasts w @ [ToastSuccess
             (if sb_status sb = HValidated
              then ''Validation for scan '' @ toString (sb_scanId sb) @ '' confirmed''
              else ''Validation for scan '' @ toString (sb_scanId sb) @ '' corrected'')]"
    and "w_console (handleValidation_success tr sb w) =
           w_console w @ (if sb_isReady sb \<and> \<not> isFetchingRef (w_data w)
                          then fetchData_console (fst (t_fetch_all tr (w_remote w))) else [])"
  by (simp_all add: handleValidation_success_def Let_def finally_fields refreshData_fields
      refreshData_calls refreshData_console toast_success_def removeScanFromState_def)

lemma guard_same:
  "processingScanId (w_page w) = Some scanId \<Longrightarrow> handleValidation tr now rb scanId act w = w"
  by (simp add: handleValidation_def handleValidation_begin_def)

lemma begin_marker_irrelevant:
  assumes "processingScanId (w_page w) \<noteq> Some scanId"
  shows "fst (handleValidation_begin now scanId act w)
          = fst (handleValidation_begin now scanId act
                   (w\<lparr>w_page := (w_page w)\<lparr>processingScanId := None\<rparr>\<rparr>))"
  using assms
  by (simp add: handleValidation_begin_def Let_def toast_error_def split: option.splits)

subsection \<open>Runs against the reference remote store\<close>

lemma db_next_fault_tables:
  "db_next_fault db = (f, db') \<Longrightarrow>
   db_scans db' = db_scans db \<and> db_history db' = db_history db \<and> db_profiles db' = db_profiles db"
  by (auto simp: db_next_fault_def split: list.splits)

lemma db_update_scan_result:
  assumes "db_update_scan scanId patch db = (e, db')"
  shows "db_history db' = db_history db"
    and "e = None \<Longrightarrow> db_scans db' =
           map (\<lambda>s. if s_id s = scanId then apply_scan_patch patch s else s) (db_scans db)"
    and "e \<noteq> None \<Longrightarrow> db_scans db' = db_scans db"
  using assms db_next_fault_tables [of db]
  by (auto simp: db_update_scan_def Let_def split: prod.splits if_splits)

lemma db_insert_history_result:
  assumes "db_insert_history payload db = (e, db')"
  shows "db_scans db' = db_scans db"
    and "e = None \<Longrightarrow> db_history db' =
           db_history db @ [row_of_payload (fresh_id (db_history db)) payload]"
    and "e \<noteq> None \<Longrightarrow> db_history db' = db_history db"
    and "\<And>x. e = Some x \<Longrightarrow> se_code x = Some ''23505'' \<Longrightarrow>
           list_ex (same_pair (hp_scan_id payload) (hp_expert_id payload)) (db_history db)"
  using assms db_next_fault_tables [of db]
  by (auto simp: db_insert_history_def Let_def transport_failure_def
      split: prod.splits if_splits)

lemma db_update_history_result:
  assumes "db_update_history scanId expertId payload db = (e, db')"
  shows "db_scans db' = db_scans db"
    and "e = None \<Longrightarrow> db_history db' =
           map (\<lambda>v. if same_pair scanId expertId v then apply_history_payload payload v else v)
             (db_history db)"
    and "e \<noteq> None \<Longrightarrow> db_history db' = db_history db"
  using assms db_next_fault_tables [of db]
  by (auto simp: db_update_history_def Let_def split: prod.splits if_splits)

lemma db_fetch_all_result:
  assumes "db_fetch_all db = (resp, db')"
  shows "db_scans db' = db_scans db" and "db_history db' = db_history db"
    and "r_error (validationsResponse resp) = None" and "profilesResponse_error resp = None"
    and "r_error (scansResponse resp) = None \<Longrightarrow> r_data (scansResponse resp) = Some (db_scans db)"
  using assms db_next_fault_tables [of db]
  by (auto simp: db_fetch_all_def Let_def split: prod.splits if_splits)

lemma fetchData_complete_scans:
  "scans (fetchData_complete resp d) =
     (if r_error (scansResponse resp) = None \<and> r_error (validationsResponse resp) = None
         \<and> profilesResponse_error resp = None
      then (case r_data (scansResponse resp) of None \<Rightarrow> [] | Some ss \<Rightarrow> ss)
      else scans d)"
  by (simp add: fetchData_complete_def fetchData_failed_def Let_def split: option.splits)

lemma refreshData_db:
  shows "db_scans (w_remote (refreshData db_transport ready w)) = db_scans (w_remote w)"
    and "db_history (w_remote (refreshData db_transport ready w)) = db_history (w_remote w)"
    and "scans (w_data (refreshData db_transport ready w)) = scans (w_data w)
         \<or> scans (w_data (refreshData db_transport ready w)) = db_scans (w_remote w)"
proof -
  obtain resp db' where f: "db_fetch_all (w_remote w) = (resp, db')"
    by (cases "db_fetch_all (w_remote w)")
  note r = db_fetch_all_result [OF f]
  show "db_scans (w_remote (refreshData db_transport ready w)) = db_scans (w_remote w)"
    using f r(1) by (simp add: refreshData_def db_transport_def split: option.splits)
  show "db_history (w_remote (refreshData db_transport ready w)) = db_history (w_remote w)"
    using f r(2) by (simp add: refreshData_def db_transport_def split: option.splits)
  show "scans (w_data (refreshData db_transport ready w)) = scans (w_data w)
         \<or> scans (w_data (refreshData db_transport ready w)) = db_scans (w_remote w)"
  proof (cases "fetchData_begin ready False (w_data w)")
    case None
    then show ?thesis by (simp add: refreshData_def)
  next
    case (Some d1)
    then have d1: "scans d1 = scans (w_data w)"
      by (auto simp: fetchData_begin_def split: if_splits)
    show ?thesis
      using Some f r(3,4,5) d1
      by (cases "r_error (scansResponse resp)")
         (simp_all add: refreshData_def db_transport_def fetchData_complete_scans)
  qed
qed

lemma success_db:
  shows "db_scans (w_remote (handleValidation_success db_transport sb w)) = db_scans (w_remote w)"
    and "db_history (w_remote (handleValidation_success db_transport sb w)) = db_history (w_remote w)"
    and "scans (w_data (handleValidation_success db_transport sb w))
           = filter (\<lambda>s. s_id s \<noteq> sb_scanId sb) (scans (w_data w))
         \<or> scans (w_data (handleValidation_success db_transport sb w)) = db_scans (w_remote w)"
proof -
  let ?w3 = "(toast_success
       (if sb_status sb = HValidated
        then ''Validation for scan '' @ toString (sb_scanId sb) @ '' confirmed''
        else ''Validation for scan '' @ toString (sb_scanId sb) @ '' corrected'') w)
      \<lparr>w_data := removeScanFromState (sb_scanId sb) (w_data w),
        w_page := (w_page w)
          \<lparr>decision := (decision (w_page w))(sb_scanKey sb := None),
           notes := (notes (w_page w))(sb_scanKey sb := None),
           detailId := (if sb_detailId sb = Some (sb_scanKey sb) then None else detailId (w_page w))\<rparr>\<rparr>"
  have run: "handleValidation_success db_transport sb w =
      handleValidation_finally sb (refreshData db_transport (sb_isReady sb) ?w3)"
    by (simp add: handleValidation_success_def Let_def toast_success_def)
  have w3: "w_remote ?w3 = w_remote w"
       "scans (w_data ?w3) = filter (\<lambda>s. s_id s \<noteq> sb_scanId sb) (scans (w_data w))"
    by (simp_all add: toast_success_def removeScanFromState_def)
  show "db_scans (w_remote (handleValidation_success db_transport sb w)) = db_scans (w_remote w)"
    unfolding run using refreshData_db(1) [of "sb_isReady sb" ?w3] w3 by (simp add: finally_fields)
  show "db_history (w_remote (handleValidation_success db_transport sb w)) = db_history (w_remote w)"
    unfolding run using refreshData_db(2) [of "sb_isReady sb" ?w3] w3 by (simp add: finally_fields)
  show "scans (w_data (handleValidation_success db_transport sb w))
           = filter (\<lambda>s. s_id s \<noteq> sb_scanId sb) (scans (w_data w))
         \<or> scans (w_data (handleValidation_success db_transport sb w)) = db_scans (w_remote w)"
    unfolding run using refreshData_db(3) [of "sb_isReady sb" ?w3] w3 by (simp add: finally_fields)
qed

lemma not_succeeded:
  "w_toasts w' = w_toasts w @ [ToastError m] \<Longrightarrow> \<not> submit_succeeded w w'"
  by (simp add: submit_succeeded_def is_success_def)

lemma begin_toasts_None:
  assumes "handleValidation_begin now scanId act w = (None, w0)"
  shows "\<not> submit_succeeded w w0"
proof -
  have "w_toasts w0 = w_toasts w \<or> (\<exists>m. w_toasts w0 = w_toasts w @ [ToastError m])"
    using assms
    by (simp add: handleValidation_begin_def Let_def toast_error_def
        split: if_splits option.splits) auto
  then show ?thesis
    by (auto simp: submit_succeeded_def is_success_def)
qed

lemma catch_not_succeeded:
  assumes "w_toasts w1 = w_toasts w"
  shows "\<not> submit_succeeded w (handleValidation_catch tr rb sb scanUpdated w1)"
proof (cases scanUpdated)
  case True
  obtain e r' where r: "t_update_scan tr (sb_scanId sb)
      \<lparr>sp_status = sb_originalStatus sb, sp_updated_at = rb\<rparr> (w_remote w1) = (e, r')"
    by (cases "t_update_scan tr (sb_scanId sb)
      \<lparr>sp_status = sb_originalStatus sb, sp_updated_at = rb\<rparr> (w_remote w1)")
  show ?thesis
    using catch_True(4) [OF r] assms True by (simp add: not_succeeded)
next
  case False
  then show ?thesis using catch_False(3) [of tr rb sb w1] assms by (simp add: not_succeeded)
qed

lemma complete_db:
  assumes ok: "submit_succeeded w (handleValidation_complete db_transport rb sb w)"
  shows "db_scans (w_remote (handleValidation_complete db_transport rb sb w)) =
           map (\<lambda>s. if s_id s = sb_scanId sb
                     then apply_scan_patch \<lparr>sp_status = scan_status_of (sb_status sb),
                                             sp_updated_at = sb_timestamp sb\<rparr> s
                     else s) (db_scans (w_remote w))"
    and "list_ex (\<lambda>v. same_pair (sb_scanId sb) (sb_user_id sb) v \<and> v_status v = sb_status sb
                    \<and> v_expert_validation v = Some (sb_expertValidation sb))
           (db_history (w_remote (handleValidation_complete db_transport rb sb w)))"
    and "scans (w_data (handleValidation_complete db_transport rb sb w))
           = filter (\<lambda>s. s_id s \<noteq> sb_scanId sb) (scans (w_data w))
         \<or> scans (w_data (handleValidation_complete db_transport rb sb w))
           = db_scans (w_remote (handleValidation_complete db_transport rb sb w))"
proof -
  let ?up = "\<lparr>sp_status = scan_status_of (sb_status sb), sp_updated_at = sb_timestamp sb\<rparr>"
  let ?pl = "insertPayload sb"
  let ?good = "\<lambda>v. same_pair (sb_scanId sb) (sb_user_id sb) v \<and> v_status v = sb_status sb
                    \<and> v_expert_validation v = Some (sb_expertValidation sb)"
  let ?res = "handleValidation_complete db_transport rb sb w"
  obtain e1 db1 where u: "db_update_scan (sb_scanId sb) ?up (w_remote w) = (e1, db1)"
    by (cases "db_update_scan (sb_scanId sb) ?up (w_remote w)")
  let ?w1 = "w\<lparr>w_remote := db1, w_calls := w_calls w @ [UpdateScan (sb_scanId sb) ?up]\<rparr>"
  obtain e2 db2 where i: "db_insert_history ?pl db1 = (e2, db2)"
    by (cases "db_insert_history ?pl db1")
  let ?w2 = "?w1\<lparr>w_remote := db2, w_calls := w_calls ?w1 @ [InsertHistory ?pl]\<rparr>"
  obtain e3 db3 where h: "db_update_history (sb_scanId sb) (sb_user_id sb) ?pl db2 = (e3, db3)"
    by (cases "db_update_history (sb_scanId sb) (sb_user_id sb) ?pl db2")
  let ?w3 = "?w2\<lparr>w_remote := db3, w_calls := w_calls ?w2 @
               [UpdateHistory (sb_scanId sb) (sb_user_id sb) ?pl]\<rparr>"
  have e1: "e1 = None"
  proof (rule ccontr)
    assume "e1 \<noteq> None"
    then obtain err where "e1 = Some err" by auto
    then have "?res = handleValidation_catch db_transport rb sb False ?w1"
      using u by (simp add: handleValidation_complete_def applyScanUpdate_def db_transport_def)
    with ok show False using catch_not_succeeded [of ?w1 w] by simp
  qed
  note u' = db_update_scan_result [OF u]
  have scans1: "db_scans db1 =
      map (\<lambda>s. if s_id s = sb_scanId sb then apply_scan_patch ?up s else s) (db_scans (w_remote w))"
    using u'(2) e1 by simp
  have cases: "(e2 = None \<and> ?res = handleValidation_success db_transport sb ?w2)
      \<or> (\<exists>herr. e2 = Some herr \<and> se_code herr = Some ''23505'' \<and> e3 = None
            \<and> ?res = handleValidation_success db_transport sb ?w3)"
  proof (cases e2)
    case None
    then show ?thesis
      using u e1 i by (simp add: handleValidation_complete_def applyScanUpdate_def db_transport_def)
  next
    case (Some herr)
    show ?thesis
    proof (cases "se_code herr = Some ''23505''")
      case True
      show ?thesis
      proof (cases e3)
        case None
        then show ?thesis
          using u e1 i h Some True
          by (simp add: handleValidation_complete_def applyScanUpdate_def db_transport_def)
      next
        case (Some uerr)
        have "?res = handleValidation_catch db_transport rb sb True
                (console_error ''Error updating validation history:'' ?w3)"
          using u e1 i h \<open>e2 = Some herr\<close> True Some
          by (simp add: handleValidation_complete_def applyScanUpdate_def db_transport_def)
        with ok show ?thesis
          using catch_not_succeeded [of "console_error ''Error updating validation history:'' ?w3" w]
          by (simp add: console_error_def)
      qed
    next
      case False
      have "?res = handleValidation_catch db_transport rb sb True
              (console_error ''Error creating validation history:'' ?w2)"
        using u e1 i Some False
        by (simp add: handleValidation_complete_def applyScanUpdate_def db_transport_def)
      with ok show ?thesis
        using catch_not_succeeded [of "console_error ''Error creating validation history:'' ?w2" w]
        by (simp add: console_error_def)
    qed
  qed
  note i' = db_insert_history_result [OF i]
  note h' = db_update_history_result [OF h]
  have row: "?good (row_of_payload n ?pl)" for n
    by (simp add: row_of_payload_def insertPayload_def same_pair_def)
  have upd: "?good (apply_history_payload ?pl v)" for v
    by (simp add: apply_history_payload_def insertPayload_def same_pair_def)
  have pl: "hp_scan_id ?pl = sb_scanId sb" "hp_expert_id ?pl = sb_user_id sb"
    by (simp_all add: insertPayload_def)
  from cases have fin: "db_scans (w_remote ?res) = db_scans db1
      \<and> list_ex ?good (db_history (w_remote ?res))
      \<and> (scans (w_data ?res) = filter (\<lambda>s. s_id s \<noteq> sb_scanId sb) (scans (w_data w))
          \<or> scans (w_data ?res) = db_scans db1)"
  proof
    assume a: "e2 = None \<and> ?res = handleValidation_success db_transport sb ?w2"
    then have hist: "db_history db2 = db_history db1 @ [row_of_payload (fresh_id (db_history db1)) ?pl]"
      using i'(2) by simp
    have "list_ex ?good (db_history db2)" unfolding hist using row by (simp add: list_ex_iff)
    then show ?thesis
      using a i'(1) success_db [of sb ?w2] by auto
  next
    assume "\<exists>herr. e2 = Some herr \<and> se_code herr = Some ''23505'' \<and> e3 = None
            \<and> ?res = handleValidation_success db_transport sb ?w3"
    then obtain herr where a: "e2 = Some herr" "se_code herr = Some ''23505''" "e3 = None"
        "?res = handleValidation_success db_transport sb ?w3" by auto
    from i'(4) [OF a(1,2)] pl have "list_ex (same_pair (sb_scanId sb) (sb_user_id sb)) (db_history db1)"
      by simp
    then obtain v where v: "v \<in> set (db_history db1)" "same_pair (sb_scanId sb) (sb_user_id sb) v"
      by (auto simp: list_ex_iff)
    have h2: "db_history db2 = db_history db1" using i'(3) a(1) by simp
    have h3: "db_history db3 =
        map (\<lambda>v. if same_pair (sb_scanId sb) (sb_user_id sb) v then apply_history_payload ?pl v else v)
          (db_history db2)" using h'(2) a(3) by simp
    have "apply_history_payload ?pl v \<in> set (db_history db3)"
      unfolding h3 h2 using v by force
    then have "list_ex ?good (db_history db3)" using upd [of v] by (auto simp: list_ex_iff)
    then show ?thesis
      using a(4) i'(1) h'(1) success_db [of sb ?w3] by auto
  qed
  show "db_scans (w_remote ?res) =
           map (\<lambda>s. if s_id s = sb_scanId sb then apply_scan_patch ?up s else s) (db_scans (w_remote w))"
    using fin scans1 by simp
  show "list_ex ?good (db_history (w_remote ?res))" using fin by simp
  show "scans (w_data ?res) = filter (\<lambda>s. s_id s \<noteq> sb_scanId sb) (scans (w_data w))
         \<or> scans (w_data ?res) = db_scans (w_remote ?res)"
    using fin by auto
qed

lemma patched_all:
  "list_all (\<lambda>s. s_id s = scanId \<longrightarrow> s_status s = st)
     (map (\<lambda>s. if s_id s = scanId then apply_scan_patch \<lparr>sp_status = st, sp_updated_at = t\<rparr> s
                else s) xs)"
  by (induction xs) (simp_all add: apply_scan_patch_def)

lemma patched_ids:
  "map s_id (map (\<lambda>s. if s_id s = scanId then apply_scan_patch patch s else s) xs) = map s_id xs"
  by (induction xs) (simp_all add: apply_scan_patch_def)

subsection \<open>Evaluation of the examples\<close>

lemmas run_defs =
  handleValidation_def handleValidation_begin_def handleValidation_complete_def
  handleValidation_catch_def handleValidation_success_def handleValidation_finally_def
  applyScanUpdate_def refreshData_def fetchData_begin_def fetchData_complete_def
  fetchData_console_def
  fetchData_failed_def missingExpertIds_def set_add_def has_full_name_def toast_error_def
  toast_success_def console_error_def removeScanFromState_def insertPayload_def isReady_def
  toString_def digit_char_def trim_def is_space_def scan_status_of_def thrown_message_def
  db_transport_def db_update_scan_def db_insert_history_def db_update_history_def
  db_fetch_all_def db_next_fault_def apply_scan_patch_def same_pair_def fresh_id_def
  row_of_payload_def apply_history_payload_def transport_failure_def conflict_error_def
  patch_expert_def profileMap_def Let_def

lemmas ex_defs =
  ex_world_def ex_db_def ex_page_def ex_user_def ex_ready_def ex_scan_def ex_validation_def
  ex_submit_def ex_started_def ex_now_def ex_later_def ex_validated_scan_def ex_existing_def
  ex_done_def ex_confirmed_def ex_reconfirmed_def ex_rolled_back_def ex_world2_def
  ex_marked_def ex_blank_world_def

lemma ex_begin:
  "handleValidation_begin ex_now 42 confirm (ex_world vs faults)
     = (Some (ex_submit 42 ''Downy Mildew''), ex_started vs faults)"
  by (simp add: run_defs ex_defs)

lemma ex_run_confirmed:
  "handleValidation db_transport ex_now ex_later 42 confirm (ex_world [] []) = ex_confirmed"
  by (simp add: run_defs ex_defs)

lemma ex_run_reconfirmed:
  "handleValidation db_transport ex_now ex_later 42 confirm (ex_world [ex_existing] [])
     = ex_reconfirmed"
  by (simp add: run_defs ex_defs)

lemma ex_run_rolled_back:
  "handleValidation db_transport ex_now ex_later 42 confirm (ex_world [] [False, True, True])
     = ex_rolled_back"
  by (simp add: run_defs ex_defs)

lemma ex_begin_first:
  "handleValidation_begin ex_now 1 confirm ex_world2 = (Some (ex_submit 1 ''Downy Mildew''), ex_marked 1)"
  by (simp add: run_defs ex_defs)

lemma ex_begin_other:
  "handleValidation_begin ex_now 2 confirm (ex_marked 1) = (Some (ex_submit 2 ''Leaf Spot''), ex_marked 2)"
  by (simp add: run_defs ex_defs)

lemma ex_begin_again:
  "handleValidation_begin ex_now 1 confirm (ex_marked 2) = (Some (ex_submit 1 ''Downy Mildew''), ex_marked 1)"
  by (simp add: run_defs ex_defs)

lemma ex_run_again:
  "w_calls (handleValidation db_transport ex_now ex_later 1 confirm (ex_marked 2))
     = [UpdateScan 1 \<lparr>sp_status = Validated, sp_updated_at = ex_now\<rparr>,
        InsertHistory (insertPayload (ex_submit 1 ''Downy Mildew'')), FetchAll]"
  by (simp add: run_defs ex_defs)

subsection \<open>Claims about the coordinator\<close>

text \<open>
  Claim C1. Take a run of the validate workflow that passes its guards, in which the Scan
  status transition is acknowledged and the insert of the ValidationRecord fails: with an
  error other than a uniqueness conflict, or with a conflict whose fallback update fails
  too. Then the last transport call of the run is one compensating update that writes
  the Scan's status back to the value the Scan had in the cache before the call. Whatever
  that write answers, no further call follows: a failure of it is written to the console
  and the run ends with the failure toast.
\<close>

theorem C1_compensating_update_issued_once:
  assumes started: "handleValidation_begin now scanId act w = (Some sb, w0)"
      and upd: "t_update_scan tr scanId
                  \<lparr>sp_status = scan_status_of (sb_status sb), sp_updated_at = now\<rparr> (w_remote w)
                = (None, r1)"
      and ins: "t_insert_history tr (insertPayload sb) r1 = (Some herr, r2)"
      and upd_hist: "t_update_history tr scanId (sb_user_id sb) (insertPayload sb) r2 = (e3, r3)"
      and failed: "se_code herr = Some ''23505'' \<longrightarrow> e3 \<noteq> None"
      and rollback: "t_update_scan tr scanId
                  \<lparr>sp_status = sb_originalStatus sb, sp_updated_at = rb\<rparr>
                  (if se_code herr = Some ''23505'' then r3 else r2) = (e4, r4)"
  shows "w_calls (handleValidation tr now rb scanId act w) =
           w_calls w
           @ [UpdateScan scanId \<lparr>sp_status = scan_status_of (sb_status sb), sp_updated_at = now\<rparr>,
              InsertHistory (insertPayload sb)]
           @ (if se_code herr = Some ''23505''
              then [UpdateHistory scanId (sb_user_id sb) (insertPayload sb)] else [])
           @ [UpdateScan scanId \<lparr>sp_status = sb_originalStatus sb, sp_updated_at = rb\<rparr>]
       \<and> Some (sb_originalStatus sb) =
           map_option s_status (find (\<lambda>s. s_id s = scanId) (scans (w_data w)))
       \<and> w_remote (handleValidation tr now rb scanId act w) = r4
       \<and> w_console (handleValidation tr now rb scanId act w) =
           w_console w
           @ [if se_code herr = Some ''23505'' then ''Error updating validation history:''
              else ''Error creating validation history:'']
           @ (if e4 = None then [] else [''Failed to rollback scan update:''])
           @ [if act = confirm then ''Error confirming validation:''
              else ''Error correcting validation:'']
       \<and> w_toasts (handleValidation tr now rb scanId act w) =
           w_toasts w @ [ToastError (if act = confirm then ''Failed to confirm validation''
                                     else ''Failed to correct validation'')]
       \<and> w_data (handleValidation tr now rb scanId act w) = w_data w"
proof -
  note b = begin_Some [OF started] begin_remote [OF started]
  let ?up = "\<lparr>sp_status = scan_status_of (sb_status sb), sp_updated_at = now\<rparr>"
  let ?w1 = "w0\<lparr>w_remote := r1, w_calls := w_calls w0 @ [UpdateScan scanId ?up]\<rparr>"
  let ?w2 = "?w1\<lparr>w_remote := r2, w_calls := w_calls ?w1 @ [InsertHistory (insertPayload sb)]\<rparr>"
  let ?w3 = "?w2\<lparr>w_remote := r3, w_calls := w_calls ?w2 @
               [UpdateHistory scanId (sb_user_id sb) (insertPayload sb)]\<rparr>"
  have orig: "Some (sb_originalStatus sb) =
           map_option s_status (find (\<lambda>s. s_id s = scanId) (scans (w_data w)))"
    using b(12) by auto
  show ?thesis
  proof (cases "se_code herr = Some ''23505''")
    case True
    with failed obtain uerr where e3: "e3 = Some uerr" by auto
    have run: "handleValidation tr now rb scanId act w =
        handleValidation_catch tr rb sb True (console_error ''Error updating validation history:'' ?w3)"
      using started upd ins upd_hist True e3 b
      by (simp add: handleValidation_def handleValidation_complete_def applyScanUpdate_def Let_def)
    have rb': "t_update_scan tr (sb_scanId sb) \<lparr>sp_status = sb_originalStatus sb, sp_updated_at = rb\<rparr>
        (w_remote (console_error ''Error updating validation history:'' ?w3)) = (e4, r4)"
      using rollback True b by (simp add: console_error_def)
    show ?thesis
      unfolding run using catch_True [OF rb'] True b orig
      by (simp add: console_error_def)
  next
    case False
    have run: "handleValidation tr now rb scanId act w =
        handleValidation_catch tr rb sb True (console_error ''Error creating validation history:'' ?w2)"
      using started upd ins False b
      by (simp add: handleValidation_def handleValidation_complete_def applyScanUpdate_def Let_def)
    have rb': "t_update_scan tr (sb_scanId sb) \<lparr>sp_status = sb_originalStatus sb, sp_updated_at = rb\<rparr>
        (w_remote (console_error ''Error creating validation history:'' ?w2)) = (e4, r4)"
      using rollback False b by (simp add: console_error_def)
    show ?thesis
      unfolding run using catch_True [OF rb'] False b orig
      by (simp add: console_error_def)
  qed
qed

theorem C1_compensating_update_issued_once_witness:
  "handleValidation_begin ex_now 42 confirm (ex_world [] [False, True, True])
     = (Some (ex_submit 42 ''Downy Mildew''), ex_started [] [False, True, True])
   \<and> handleValidation db_transport ex_now ex_later 42 confirm (ex_world [] [False, True, True])
     = ex_rolled_back
   \<and> w_calls ex_rolled_back
     = [UpdateScan 42 \<lparr>sp_status = Validated, sp_updated_at = ex_now\<rparr>,
        InsertHistory (insertPayload (ex_submit 42 ''Downy Mildew'')),
        UpdateScan 42 \<lparr>sp_status = PendingValidation, sp_updated_at = ex_later\<rparr>]
   \<and> w_console ex_rolled_back
     = [''Error creating validation history:'', ''Failed to rollback scan update:'',
        ''Error confirming validation:'']"
proof -
  let ?w = "ex_world [] [False, True, True]"
  let ?sb = "ex_submit 42 ''Downy Mildew''"
  let ?up = "\<lparr>sp_status = scan_status_of (sb_status ?sb), sp_updated_at = ex_now\<rparr>"
  let ?r1 = "snd (t_update_scan db_transport 42 ?up (w_remote ?w))"
  let ?r2 = "snd (t_insert_history db_transport (insertPayload ?sb) ?r1)"
  let ?x3 = "t_update_history db_transport 42 (sb_user_id ?sb) (insertPayload ?sb) ?r2"
  let ?x4 = "t_update_scan db_transport 42
      \<lparr>sp_status = sb_originalStatus ?sb, sp_updated_at = ex_later\<rparr>
      (if se_code transport_failure = Some ''23505'' then snd ?x3 else ?r2)"
  have h1: "t_update_scan db_transport 42 ?up (w_remote ?w) = (None, ?r1)"
    by (simp add: run_defs ex_defs)
  have h2: "t_insert_history db_transport (insertPayload ?sb) ?r1 = (Some transport_failure, ?r2)"
    by (simp add: run_defs ex_defs)
  have h3: "?x3 = (fst ?x3, snd ?x3)" by simp
  have h4: "se_code transport_failure = Some ''23505'' \<longrightarrow> fst ?x3 \<noteq> None"
    by (simp add: transport_failure_def)
  have h5: "?x4 = (fst ?x4, snd ?x4)" by simp
  show ?thesis
    using C1_compensating_update_issued_once [OF ex_begin h1 h2 h3 h4 h5]
    by (simp add: ex_begin ex_run_rolled_back ex_rolled_back_def)
qed

text \<open>
  Claim C2, against the reference remote store. After every run of
  \<^verbatim>\<open>submit(scanId, "confirm")\<close> that shows the success toast: every Scan of that identity
  in the remote store has status Validated, and no Scan was added or removed; a
  ValidationRecord for that Scan and the signed-in expert exists there with status
  Validated and with the Scan's automated prediction as its determination; every Scan of
  that identity still in the cache has status Validated, and the pending subset of the
  cache does not contain the Scan.
\<close>

theorem C2_confirm_postcondition:
  assumes sel: "find (\<lambda>s. s_id s = scanId) (scans (w_data w)) = Some selectedScan"
      and ok: "submit_succeeded w (handleValidation db_transport now rb scanId confirm w)"
  shows "list_all (\<lambda>s. s_id s = scanId \<longrightarrow> s_status s = Validated)
           (db_scans (w_remote (handleValidation db_transport now rb scanId confirm w)))
       \<and> map s_id (db_scans (w_remote (handleValidation db_transport now rb scanId confirm w)))
           = map s_id (db_scans (w_remote w))
       \<and> list_ex (\<lambda>v. v_scan_id v = scanId \<and> Some (v_expert_id v) = map_option u_id (w_user w)
                     \<and> v_status v = HValidated
                     \<and> v_expert_validation v = Some (s_ai_prediction selectedScan))
           (db_history (w_remote (handleValidation db_transport now rb scanId confirm w)))
       \<and> list_all (\<lambda>s. s_id s = scanId \<longrightarrow> s_status s = Validated)
           (scans (w_data (handleValidation db_transport now rb scanId confirm w)))
       \<and> list_all (\<lambda>s. s_id s \<noteq> scanId)
           (pendingScans (scans (w_data (handleValidation db_transport now rb scanId confirm w))))"
proof -
  let ?res = "handleValidation db_transport now rb scanId confirm w"
  obtain r w0 where b: "handleValidation_begin now scanId confirm w = (r, w0)"
    by (cases "handleValidation_begin now scanId confirm w")
  have "r \<noteq> None"
  proof
    assume "r = None"
    with b have "?res = w0" and "\<not> submit_succeeded w w0"
      by (simp_all add: handleValidation_def begin_toasts_None)
    with ok show False by simp
  qed
  then obtain sb where r: "r = Some sb" by auto
  note bs = begin_Some [OF b [unfolded r]] begin_remote [OF b] begin_toasts_Some [OF b [unfolded r]]
  have res: "?res = handleValidation_complete db_transport rb sb w0"
    using b r by (simp add: handleValidation_def)
  have ok0: "submit_succeeded w0 (handleValidation_complete db_transport rb sb w0)"
    using ok res bs by (simp add: submit_succeeded_def)
  note c = complete_db [OF ok0]
  have sb: "sb_scanId sb = scanId" "sb_status sb = HValidated"
       "sb_expertValidation sb = s_ai_prediction selectedScan"
       "Some (sb_user_id sb) = map_option u_id (w_user w)"
    using bs sel by (auto simp: isReady_def split: option.splits)
  define rs where "rs = db_scans (w_remote ?res)"
  define rh where "rh = db_history (w_remote ?res)"
  define ls where "ls = scans (w_data ?res)"
  have c1: "rs = map (\<lambda>s. if s_id s = scanId
                then apply_scan_patch \<lparr>sp_status = Validated, sp_updated_at = sb_timestamp sb\<rparr> s
                else s) (db_scans (w_remote w))"
    using c(1) sb(1,2) bs(13) by (simp add: rs_def res scan_status_of_def)
  have c2: "list_ex (\<lambda>v. same_pair scanId (sb_user_id sb) v \<and> v_status v = HValidated
                    \<and> v_expert_validation v = Some (s_ai_prediction selectedScan)) rh"
    using c(2) sb(1,2,3) by (simp add: rh_def res)
  have c3: "ls = filter (\<lambda>s. s_id s \<noteq> scanId) (scans (w_data w)) \<or> ls = rs"
    using c(3) sb(1) bs(13) by (simp add: ls_def rs_def res)
  have a1: "list_all (\<lambda>s. s_id s = scanId \<longrightarrow> s_status s = Validated) rs"
    unfolding c1 by (rule patched_all)
  have a2: "map s_id rs = map s_id (db_scans (w_remote w))"
    unfolding c1 by (rule patched_ids)
  from c2 obtain v where v: "v \<in> set rh" "same_pair scanId (sb_user_id sb) v"
      "v_status v = HValidated" "v_expert_validation v = Some (s_ai_prediction selectedScan)"
    by (auto simp: list_ex_iff)
  have "Some (v_expert_id v) = map_option u_id (w_user w)"
    using v(2) sb(4) by (simp add: same_pair_def)
  with v have a3: "list_ex (\<lambda>v. v_scan_id v = scanId \<and> Some (v_expert_id v) = map_option u_id (w_user w)
                     \<and> v_status v = HValidated
                     \<and> v_expert_validation v = Some (s_ai_prediction selectedScan)) rh"
    unfolding list_ex_iff same_pair_def by blast
  have a4: "list_all (\<lambda>s. s_id s = scanId \<longrightarrow> s_status s = Validated) ls"
    using c3
  proof
    assume "ls = filter (\<lambda>s. s_id s \<noteq> scanId) (scans (w_data w))"
    then show ?thesis by (simp add: list_all_iff)
  next
    assume "ls = rs"
    then show ?thesis using a1 by simp
  qed
  have a5: "list_all (\<lambda>s. s_id s \<noteq> scanId) (pendingScans ls)"
    using a4 by (auto simp: pendingScans_def list_all_iff)
  show ?thesis using a1 a2 a3 a4 a5 unfolding rs_def rh_def ls_def by simp
qed

theorem C2_confirm_postcondition_witness:
  "find (\<lambda>s. s_id s = 42) (scans (w_data (ex_world [] [])))
     = Some (ex_scan 42 ''Downy Mildew'' PendingValidation)
   \<and> handleValidation db_transport ex_now ex_later 42 confirm (ex_world [] []) = ex_confirmed
   \<and> submit_succeeded (ex_world [] []) ex_confirmed
   \<and> map s_status (db_scans (w_remote ex_confirmed)) = [Validated]
   \<and> map (\<lambda>v. (v_scan_id v, v_expert_validation v, v_status v)) (db_history (w_remote ex_confirmed))
     = [(42, Some ''Downy Mildew'', HValidated)]
   \<and> list_all (\<lambda>s. s_id s \<noteq> 42) (pendingScans (scans (w_data ex_confirmed)))"
proof -
  have h1: "find (\<lambda>s. s_id s = 42) (scans (w_data (ex_world [] [])))
     = Some (ex_scan 42 ''Downy Mildew'' PendingValidation)"
    by (simp add: ex_defs)
  have h2: "submit_succeeded (ex_world [] [])
        (handleValidation db_transport ex_now ex_later 42 confirm (ex_world [] []))"
    unfolding ex_run_confirmed by (simp add: submit_succeeded_def is_success_def ex_defs)
  show ?thesis
    using h1 h2 C2_confirm_postcondition [OF h1 h2]
    unfolding ex_run_confirmed
    by (simp add: ex_defs)
qed

text \<open>
  Claim C4. Take a run that passes its guards, in which the Scan status transition is
  acknowledged and the insert of the ValidationRecord fails with code 23505. Then the next
  call of the coordinator is an update of \<^verbatim>\<open>validation_history\<close> keyed by the Scan
  identity and the signed-in expert, with the payload of the insert. When that update is
  acknowledged the run issues no compensating write and shows one toast, the success
  toast; the coordinator writes no label of its own to the console, where the only lines
  the run can add are those of its closing reload.
\<close>

theorem C4_conflict_updates_existing_record:
  assumes started: "handleValidation_begin now scanId act w = (Some sb, w0)"
      and upd: "t_update_scan tr scanId
                  \<lparr>sp_status = scan_status_of (sb_status sb), sp_updated_at = now\<rparr> (w_remote w)
                = (None, r1)"
      and ins: "t_insert_history tr (insertPayload sb) r1 = (Some herr, r2)"
      and conflict: "se_code herr = Some ''23505''"
      and upd_hist: "t_update_history tr scanId (sb_user_id sb) (insertPayload sb) r2 = (e3, r3)"
  shows "w_calls (handleValidation tr now rb scanId act w) =
           w_calls w
           @ [UpdateScan scanId \<lparr>sp_status = scan_status_of (sb_status sb), sp_updated_at = now\<rparr>,
              InsertHistory (insertPayload sb),
              UpdateHistory scanId (sb_user_id sb) (insertPayload sb)]
           @ (if e3 = None then (if isFetchingRef (w_data w) then [] else [FetchAll])
              else [UpdateScan scanId \<lparr>sp_status = sb_originalStatus sb, sp_updated_at = rb\<rparr>])
       \<and> hp_scan_id (insertPayload sb) = scanId
       \<and> Some (hp_expert_id (insertPayload sb)) = map_option u_id (w_user w)
       \<and> (e3 = None \<longrightarrow>
            (\<exists>m. w_toasts (handleValidation tr now rb scanId act w) =
                    w_toasts w @ [ToastSuccess m])
            \<and> w_console (handleValidation tr now rb scanId act w) =
                w_console w
                @ (if isFetchingRef (w_data w) then []
                   else fetchData_console (fst (t_fetch_all tr r3))))"
proof -
  note b = begin_Some [OF started] begin_remote [OF started]
  note ready = begin_ready [OF started]
  let ?up = "\<lparr>sp_status = scan_status_of (sb_status sb), sp_updated_at = now\<rparr>"
  let ?w1 = "w0\<lparr>w_remote := r1, w_calls := w_calls w0 @ [UpdateScan scanId ?up]\<rparr>"
  let ?w2 = "?w1\<lparr>w_remote := r2, w_calls := w_calls ?w1 @ [InsertHistory (insertPayload sb)]\<rparr>"
  let ?w3 = "?w2\<lparr>w_remote := r3, w_calls := w_calls ?w2 @
               [UpdateHistory scanId (sb_user_id sb) (insertPayload sb)]\<rparr>"
  have user: "Some (sb_user_id sb) = map_option u_id (w_user w)"
    using b(2,8) by (cases "w_user w") (simp_all add: isReady_def)
  show ?thesis
  proof (cases e3)
    case None
    have run: "handleValidation tr now rb scanId act w = handleValidation_success tr sb ?w3"
      using started upd ins conflict upd_hist None b
      by (simp add: handleValidation_def handleValidation_complete_def applyScanUpdate_def Let_def)
    show ?thesis
      unfolding run using b user None ready
      by (simp add: success_fields insertPayload_def)
  next
    case (Some uerr)
    let ?w4 = "console_error ''Error updating validation history:'' ?w3"
    have run: "handleValidation tr now rb scanId act w = handleValidation_catch tr rb sb True ?w4"
      using started upd ins conflict upd_hist Some b
      by (simp add: handleValidation_def handleValidation_complete_def applyScanUpdate_def Let_def)
    obtain e4 r4 where rb': "t_update_scan tr (sb_scanId sb)
        \<lparr>sp_status = sb_originalStatus sb, sp_updated_at = rb\<rparr> (w_remote ?w4) = (e4, r4)"
      by (cases "t_update_scan tr (sb_scanId sb)
        \<lparr>sp_status = sb_originalStatus sb, sp_updated_at = rb\<rparr> (w_remote ?w4)")
    show ?thesis
      unfolding run using catch_True(1) [OF rb'] b user Some
      by (simp add: console_error_def insertPayload_def)
  qed
qed

theorem C4_conflict_updates_existing_record_witness:
  "handleValidation_begin ex_now 42 confirm (ex_world [ex_existing] [])
     = (Some (ex_submit 42 ''Downy Mildew''), ex_started [ex_existing] [])
   \<and> handleValidation db_transport ex_now ex_later 42 confirm (ex_world [ex_existing] [])
     = ex_reconfirmed
   \<and> w_calls ex_reconfirmed
     = [UpdateScan 42 \<lparr>sp_status = Validated, sp_updated_at = ex_now\<rparr>,
        InsertHistory (insertPayload (ex_submit 42 ''Downy Mildew'')),
        UpdateHistory 42 ''expert-a'' (insertPayload (ex_submit 42 ''Downy Mildew'')), FetchAll]
   \<and> w_toasts ex_reconfirmed = [ToastSuccess ''Validation for scan 42 confirmed'']
   \<and> w_console ex_reconfirmed = []
   \<and> db_history (w_remote ex_reconfirmed) = [ex_validation 7 42 ''expert-a'' HValidated ex_now]"
proof -
  let ?w = "ex_world [ex_existing] []"
  let ?sb = "ex_submit 42 ''Downy Mildew''"
  let ?up = "\<lparr>sp_status = scan_status_of (sb_status ?sb), sp_updated_at = ex_now\<rparr>"
  let ?r1 = "snd (t_update_scan db_transport 42 ?up (w_remote ?w))"
  let ?r2 = "snd (t_insert_history db_transport (insertPayload ?sb) ?r1)"
  let ?r3 = "snd (t_update_history db_transport 42 (sb_user_id ?sb) (insertPayload ?sb) ?r2)"
  have h1: "t_update_scan db_transport 42 ?up (w_remote ?w) = (None, ?r1)"
    by (simp add: run_defs ex_defs)
  have h2: "t_insert_history db_transport (insertPayload ?sb) ?r1 = (Some conflict_error, ?r2)"
    by (simp add: run_defs ex_defs)
  have h3: "se_code conflict_error = Some ''23505''" by (simp add: conflict_error_def)
  have h4: "t_update_history db_transport 42 (sb_user_id ?sb) (insertPayload ?sb) ?r2 = (None, ?r3)"
    by (simp add: run_defs ex_defs)
  show ?thesis
    using C4_conflict_updates_existing_record [OF ex_begin h1 h2 h3 h4, of ex_later]
    by (simp add: ex_begin ex_run_reconfirmed ex_reconfirmed_def ex_done_def)
qed

text \<open>
  Claim C5, as the code has it. The in-flight marker is one slot. A submit for the
  identity the slot holds returns at once: no transport call, no change at all. A submit
  that passes its guards puts its own identity into the slot, whatever the slot held.
  While the slot holds another identity the guards of a submit answer exactly as with an
  empty slot, so submits for different identities proceed. The end of a submit empties
  the slot only if the slot still holds that submit's identity.
\<close>

theorem C5_single_slot_marker:
  "(processingScanId (w_page w) = Some scanId \<longrightarrow> handleValidation tr now rb scanId act w = w)
   \<and> (handleValidation_begin now' scanId' act' w' = (Some sb', w0) \<longrightarrow>
        processingScanId (w_page w0) = Some scanId')
   \<and> (processingScanId (w_page w'') \<noteq> Some scanId'' \<longrightarrow>
        fst (handleValidation_begin now'' scanId'' act'' w'')
          = fst (handleValidation_begin now'' scanId'' act''
                   (w''\<lparr>w_page := (w_page w'')\<lparr>processingScanId := None\<rparr>\<rparr>)))
   \<and> processingScanId (w_page (handleValidation_finally sb w3))
        = (if processingScanId (w_page w3) = Some (sb_scanId sb) then None
           else processingScanId (w_page w3))"
proof -
  have 2: "processingScanId (w_page w0) = Some scanId'"
    if "handleValidation_begin now' scanId' act' w' = (Some sb', w0)"
    using begin_Some(3) [OF that] by simp
  show ?thesis
    using guard_same [of w scanId tr now rb act]
      begin_marker_irrelevant [of w'' scanId'' now'' act''] 2
    by (simp add: handleValidation_finally_def)
qed

theorem C5_single_slot_marker_witness:
  "processingScanId (w_page (ex_marked 1)) = Some 1
   \<and> handleValidation db_transport ex_now ex_later 1 confirm (ex_marked 1) = ex_marked 1
   \<and> handleValidation_begin ex_now 2 confirm (ex_marked 1)
        = (Some (ex_submit 2 ''Leaf Spot''), ex_marked 2)
   \<and> processingScanId (w_page (ex_marked 2)) = Some 2
   \<and> processingScanId (w_page (ex_marked 1)) \<noteq> Some 2
   \<and> fst (handleValidation_begin ex_now 2 confirm (ex_marked 1))
        = fst (handleValidation_begin ex_now 2 confirm
                 ((ex_marked 1)\<lparr>w_page := (w_page (ex_marked 1))\<lparr>processingScanId := None\<rparr>\<rparr>))
   \<and> processingScanId (w_page (handleValidation_finally (ex_submit 1 ''Downy Mildew'') (ex_marked 2)))
        = Some 2"
  using C5_single_slot_marker [of "ex_marked 1" 1 db_transport ex_now ex_later confirm
      ex_now 2 confirm "ex_marked 1" "ex_submit 2 ''Leaf Spot''" "ex_marked 2"
      "ex_marked 1" 2 ex_now confirm "ex_submit 1 ''Downy Mildew''" "ex_marked 2"]
    ex_begin_other
  by (simp add: ex_marked_def ex_page_def ex_submit_def)

text \<open>
  Claim C5 as stated fails: a submit for Scan 1 starts, then a submit for Scan 2 starts
  and takes the slot, and a second submit for Scan 1 passes the guard and reaches the
  transport while the first submit for Scan 1 is still outstanding.
\<close>

theorem C5_counterexample:
  "handleValidation_begin ex_now 1 confirm ex_world2
     = (Some (ex_submit 1 ''Downy Mildew''), ex_marked 1)
   \<and> handleValidation_begin ex_now 2 confirm (ex_marked 1)
     = (Some (ex_submit 2 ''Leaf Spot''), ex_marked 2)
   \<and> handleValidation_begin ex_now 1 confirm (ex_marked 2)
     = (Some (ex_submit 1 ''Downy Mildew''), ex_marked 1)
   \<and> w_calls (handleValidation db_transport ex_now ex_later 1 confirm (ex_marked 2))
     = [UpdateScan 1 \<lparr>sp_status = Validated, sp_updated_at = ex_now\<rparr>,
        InsertHistory (insertPayload (ex_submit 1 ''Downy Mildew'')), FetchAll]"
  by (simp add: ex_begin_first ex_begin_other ex_begin_again ex_run_again)

text \<open>
  Claim C9. A \<^verbatim>\<open>submit(scanId, "correct")\<close> whose corrected value is missing, empty or
  made of white space only returns before \<^verbatim>\<open>setProcessingScanId\<close>: it issues no
  transport call and leaves the remote state, the cache and the page state as they are.
\<close>

theorem C9_blank_correction_rejected:
  assumes blank: "case decision (w_page w) (toString scanId) of None \<Rightarrow> True | Some c \<Rightarrow> list_all is_space c"
  shows "fst (handleValidation_begin now scanId correct w) = None
       \<and> w_calls (handleValidation tr now rb scanId correct w) = w_calls w
       \<and> w_remote (handleValidation tr now rb scanId correct w) = w_remote w
       \<and> w_data (handleValidation tr now rb scanId correct w) = w_data w
       \<and> w_page (handleValidation tr now rb scanId correct w) = w_page w"
proof -
  have corrected: "(case decision (w_page w) (toString scanId) of None \<Rightarrow> []
          | Some c \<Rightarrow> if c \<noteq> [] \<and> length (trim c) > 0 then trim c else []) = []"
    using blank by (auto simp: trim_blank split: option.splits)
  obtain r w' where b: "handleValidation_begin now scanId correct w = (r, w')"
    by (cases "handleValidation_begin now scanId correct w")
  have "r = None \<and> w_calls w' = w_calls w \<and> w_remote w' = w_remote w \<and> w_data w' = w_data w
        \<and> w_page w' = w_page w"
    using b corrected
    by (auto simp: handleValidation_begin_def Let_def toast_error_def
        split: if_splits option.splits)
  then show ?thesis using b by (simp add: handleValidation_def)
qed

theorem C9_blank_correction_rejected_witness:
  "(case decision (w_page ex_blank_world) (toString 42) of None \<Rightarrow> True
    | Some c \<Rightarrow> list_all is_space c)
   \<and> w_calls (handleValidation db_transport ex_now ex_later 42 correct ex_blank_world) = []
   \<and> w_data (handleValidation db_transport ex_now ex_later 42 correct ex_blank_world)
       = w_data ex_blank_world"
proof -
  have h: "case decision (w_page ex_blank_world) (toString 42) of None \<Rightarrow> True
    | Some c \<Rightarrow> list_all is_space c"
    by (simp add: ex_defs toString_def digit_char_def is_space_def)
  show ?thesis
    using h C9_blank_correction_rejected [OF h, of ex_now db_transport ex_later]
    by (simp add: ex_blank_world_def ex_world_def)
qed

end
